theory Spec2Isabelle
  imports Main "HOL-Library.Product_Lexorder"
begin

section \<open>JSON values and the Python operations the store and the quiz handlers use\<close>

text \<open>
  The metadata document, the quiz state and the request and response bodies are JSON
  values. A Python \<^verbatim>\<open>dict\<close> keeps its keys in insertion order, so an object is an
  association list. JSON numbers are restricted to integers; a Python \<^verbatim>\<open>bool\<close> stays a
  separate constructor and counts as 0 or 1 wherever Python does arithmetic with it.
\<close>

datatype json =
    JNull
  | JBool bool
  | JInt int
  | JStr string
  | JList "json list"
  | JObj "(string \<times> json) list"

datatype pyerr =
    KeyError
  | TypeError
  | ValueError
  | IndexError
  | AttributeError
  | JSONDecodeError
  | IntegrityError

text \<open>Python truthiness (\<^verbatim>\<open>if x\<close>, \<^verbatim>\<open>not x\<close>).\<close>

fun truthy :: "json \<Rightarrow> bool" where
  "truthy JNull = False"
| "truthy (JBool b) = b"
| "truthy (JInt i) = (i \<noteq> 0)"
| "truthy (JStr s) = (s \<noteq> [])"
| "truthy (JList xs) = (xs \<noteq> [])"
| "truthy (JObj kvs) = (kvs \<noteq> [])"

text \<open>\<^verbatim>\<open>d[key] = value\<close> on a dict: an existing key keeps its place, a new key goes last.\<close>

fun dict_set :: "(string \<times> json) list \<Rightarrow> string \<Rightarrow> json \<Rightarrow> (string \<times> json) list" where
  "dict_set [] k v = [(k, v)]"
| "dict_set ((k', v') # kvs) k v =
     (if k' = k then (k, v) # kvs else (k', v') # dict_set kvs k v)"

text \<open>\<^verbatim>\<open>x[key] = value\<close> with a string key: only a dict accepts it.\<close>

fun py_setitem :: "json \<Rightarrow> string \<Rightarrow> json \<Rightarrow> pyerr + json" where
  "py_setitem (JObj kvs) k v = Inr (JObj (dict_set kvs k v))"
| "py_setitem _ k v = Inl TypeError"

text \<open>\<^verbatim>\<open>x[key]\<close> with a string key.\<close>

fun py_getitem :: "json \<Rightarrow> string \<Rightarrow> pyerr + json" where
  "py_getitem (JObj kvs) k = (case map_of kvs k of None \<Rightarrow> Inl KeyError | Some v \<Rightarrow> Inr v)"
| "py_getitem _ k = Inl TypeError"

text \<open>\<^verbatim>\<open>x.get(key, default)\<close>; \<^verbatim>\<open>x.get(key)\<close> is the case \<open>default = JNull\<close>.\<close>

fun py_get :: "json \<Rightarrow> string \<Rightarrow> json \<Rightarrow> pyerr + json" where
  "py_get (JObj kvs) k dflt = (case map_of kvs k of None \<Rightarrow> Inr dflt | Some v \<Rightarrow> Inr v)"
| "py_get _ k dflt = Inl AttributeError"

section \<open>The store: \<^verbatim>\<open>ChatHistoryDB\<close>\<close>

text \<open>
  A text as \<^verbatim>\<open>json.loads\<close> sees it: \<open>Dumps j\<close> is the text \<^verbatim>\<open>json.dumps\<close> writes for
  \<open>j\<close> (and any other text that parses to \<open>j\<close>); \<open>NotJson s\<close> is a text \<open>s\<close> outside the
  JSON grammar, the empty text among them.

  A cell is the Python value the driver hands back for the \<^verbatim>\<open>metadata\<close> column:
  \<^verbatim>\<open>None\<close> for SQL NULL, a \<^verbatim>\<open>str\<close> (the SQLite TEXT column, or a JSONB string), or
  the decoded value of a JSONB column that holds anything but a string.
\<close>

datatype stored_text = Dumps json | NotJson string

datatype cell = SqlNull | PyStr stored_text | Decoded json

fun cell_truthy :: "cell \<Rightarrow> bool" where
  "cell_truthy SqlNull = False"
| "cell_truthy (PyStr (Dumps j)) = True"
| "cell_truthy (PyStr (NotJson s)) = (s \<noteq> [])"
| "cell_truthy (Decoded j) = truthy j"

fun isinstance_str :: "cell \<Rightarrow> bool" where
  "isinstance_str (PyStr t) = True"
| "isinstance_str _ = False"

text \<open>\<^verbatim>\<open>json.loads(x)\<close>: a \<^verbatim>\<open>TypeError\<close> unless \<open>x\<close> is a string.\<close>

fun json_loads :: "cell \<Rightarrow> pyerr + json" where
  "json_loads (PyStr (Dumps j)) = Inr j"
| "json_loads (PyStr (NotJson s)) = Inl JSONDecodeError"
| "json_loads _ = Inl TypeError"

text \<open>The value of a cell that is not a string, as Python holds it.\<close>

fun cell_value :: "cell \<Rightarrow> json" where
  "cell_value (Decoded j) = j"
| "cell_value _ = JNull"

type_synonym session_id = string
type_synonym timestamp = nat

record session_row =
  title :: "string option"
  created_at :: timestamp
  updated_at :: timestamp
  metadata :: cell

record message_row =
  msg_id :: nat
  msg_session :: session_id
  msg_role :: string
  msg_content :: string
  msg_provider :: "string option"
  msg_created_at :: timestamp

text \<open>
  The database: which backend was chosen at construction (\<^verbatim>\<open>_is_postgres\<close>), the
  \<^verbatim>\<open>sessions\<close> table by primary key, the \<^verbatim>\<open>messages\<close> table in insertion order with
  its id sequence, and the wall clock as the stream of readings still to come.
\<close>

record db =
  is_postgres :: bool
  sessions :: "session_id \<rightharpoonup> session_row"
  messages :: "message_row list"
  next_msg_id :: nat
  clock :: "nat \<Rightarrow> timestamp"
  clock_reads :: nat

definition now :: "db \<Rightarrow> timestamp" where
  "now d = clock d (clock_reads d)"

definition tick :: "db \<Rightarrow> db" where
  "tick d = d\<lparr>clock_reads := Suc (clock_reads d)\<rparr>"

definition session_exists :: "db \<Rightarrow> session_id \<Rightarrow> bool" where
  "session_exists d sid = (sessions d sid \<noteq> None)"

text \<open>
  \<^verbatim>\<open>get_session_metadata\<close>. SQLite: \<^verbatim>\<open>json.loads(row[0]) if row[0] else {}\<close> inside a
  bare \<^verbatim>\<open>try/except\<close>. PostgreSQL: a string is parsed inside a bare \<^verbatim>\<open>try/except\<close>,
  anything else is returned as it is unless it is falsy.
\<close>

definition get_session_metadata :: "db \<Rightarrow> session_id \<Rightarrow> pyerr + json" where
  "get_session_metadata d sid =
     (case sessions d sid of
        None \<Rightarrow> Inr (JObj [])
      | Some row \<Rightarrow>
          (let meta = metadata row in
           if is_postgres d then
             (if isinstance_str meta then
                (case json_loads meta of Inl e \<Rightarrow> Inr (JObj []) | Inr j \<Rightarrow> Inr j)
              else Inr (if cell_truthy meta then cell_value meta else JObj []))
           else
             (case (if cell_truthy meta then json_loads meta else Inr (JObj [])) of
                Inl e \<Rightarrow> Inr (JObj [])
              | Inr j \<Rightarrow> Inr j)))"

text \<open>
  \<^verbatim>\<open>get_session_subject\<close>: only \<^verbatim>\<open>JSONDecodeError\<close> is caught, and
  \<^verbatim>\<open>metadata.get("subject")\<close> is outside the \<^verbatim>\<open>try\<close>.
\<close>

definition get_session_subject :: "db \<Rightarrow> session_id \<Rightarrow> pyerr + json" where
  "get_session_subject d sid =
     (let metadata_json = (case sessions d sid of None \<Rightarrow> SqlNull | Some row \<Rightarrow> metadata row) in
      if \<not> cell_truthy metadata_json then Inr JNull
      else if isinstance_str metadata_json then
        (case json_loads metadata_json of
           Inl e \<Rightarrow> (if e = JSONDecodeError then Inr JNull else Inl e)
         | Inr m \<Rightarrow> py_get m ''subject'' JNull)
      else py_get (cell_value metadata_json) ''subject'' JNull)"

text \<open>
  \<^verbatim>\<open>update_session_metadata\<close>: read the row, parse it (anything unreadable counts as
  \<^verbatim>\<open>{}\<close>), set the key, write the document back and stamp \<^verbatim>\<open>updated_at\<close>. The item
  assignment is outside the \<^verbatim>\<open>try\<close>: on a value that is not a dict it raises, the
  connection closes without a commit and nothing is written. SQLite keeps the text of
  \<^verbatim>\<open>json.dumps\<close>; PostgreSQL casts it to JSONB and hands the decoded object back.
\<close>

definition update_session_metadata ::
  "db \<Rightarrow> session_id \<Rightarrow> string \<Rightarrow> json \<Rightarrow> (pyerr + bool) \<times> db" where
  "update_session_metadata d sid key val =
     (case sessions d sid of
        None \<Rightarrow> (Inr False, d)
      | Some row \<Rightarrow>
          (let current_metadata =
                 (if is_postgres d then
                    (let cm = (if cell_truthy (metadata row) then metadata row else Decoded (JObj [])) in
                     if isinstance_str cm then
                       (case json_loads cm of Inl e \<Rightarrow> JObj [] | Inr j \<Rightarrow> j)
                     else cell_value cm)
                  else
                    (case (if cell_truthy (metadata row) then json_loads (metadata row)
                           else Inr (JObj [])) of
                       Inl e \<Rightarrow> JObj []
                     | Inr j \<Rightarrow> j))
           in case py_setitem current_metadata key val of
                Inl e \<Rightarrow> (Inl e, d)
              | Inr doc \<Rightarrow>
                  (Inr True,
                   (tick d)\<lparr>sessions := (sessions d)(sid \<mapsto>
                      row\<lparr>metadata := (if is_postgres d then Decoded doc else PyStr (Dumps doc)),
                          updated_at := now d\<rparr>)\<rparr>)))"

text \<open>
  \<^verbatim>\<open>delete_session\<close>: nothing happens unless the session exists; then its messages and
  its row go in one transaction.
\<close>

definition delete_session :: "db \<Rightarrow> session_id \<Rightarrow> bool \<times> db" where
  "delete_session d sid =
     (if \<not> session_exists d sid then (False, d)
      else (True, d\<lparr>messages := filter (\<lambda>m. msg_session m \<noteq> sid) (messages d),
                    sessions := (sessions d)(sid := None)\<rparr>))"

text \<open>
  \<^verbatim>\<open>add_message\<close>. SQLite stamps the row with \<^verbatim>\<open>datetime.now()\<close> and reads the clock
  again for \<^verbatim>\<open>updated_at\<close>; it never switches foreign keys on, so a row for a session
  that does not exist is stored all the same. PostgreSQL stamps both with \<^verbatim>\<open>NOW()\<close>,
  the time of the transaction, and rejects a row whose session does not exist (the id
  drawn from the sequence is spent).
\<close>

definition add_message ::
  "db \<Rightarrow> session_id \<Rightarrow> string \<Rightarrow> string \<Rightarrow> string option \<Rightarrow> (pyerr + nat) \<times> db" where
  "add_message d sid role content provider =
     (let new_id = next_msg_id d;
          row = \<lparr>msg_id = new_id, msg_session = sid, msg_role = role, msg_content = content,
                 msg_provider = provider, msg_created_at = now d\<rparr>;
          touch = (\<lambda>t. case sessions d sid of
                          None \<Rightarrow> sessions d
                        | Some r \<Rightarrow> (sessions d)(sid \<mapsto> r\<lparr>updated_at := t\<rparr>))
      in if is_postgres d then
           (if \<not> session_exists d sid then (Inl IntegrityError, d\<lparr>next_msg_id := Suc new_id\<rparr>)
            else (Inr new_id,
                  (tick d)\<lparr>messages := messages d @ [row], next_msg_id := Suc new_id,
                           sessions := touch (now d)\<rparr>))
         else
           (Inr new_id,
            (tick (tick d))\<lparr>messages := messages d @ [row], next_msg_id := Suc new_id,
                            sessions := touch (now (tick d))\<rparr>))"

text \<open>
  The query of \<^verbatim>\<open>get_session_messages\<close>:
  \<^verbatim>\<open>SELECT ... WHERE session_id = ? ORDER BY created_at DESC LIMIT ?\<close>.
  \<open>select_messages d sid limit fetched\<close> says that \<open>fetched\<close> is what the cursor
  returns.

  SQLite answers the query from \<^verbatim>\<open>idx_messages_session\<close>, the index on
  \<^verbatim>\<open>(session_id, created_at)\<close> that the constructor creates. The entries of an index
  end in the rowid, and the index is read backwards: the rows come newest stamp first
  and, among rows of one stamp, newest id first.

  PostgreSQL promises the order only as far as the \<^verbatim>\<open>ORDER BY\<close> keys differ, so
  there any list will do that holds the \<open>limit\<close> newest rows, newest first. The rows
  of a table are pairwise different (they carry the primary key), which is what lets
  \<open>distinct\<close> and \<open>set\<close> stand for the multiset of the rows.
\<close>

definition session_rows :: "db \<Rightarrow> session_id \<Rightarrow> message_row list" where
  "session_rows d sid = filter (\<lambda>m. msg_session m = sid) (messages d)"

definition index_key :: "message_row \<Rightarrow> timestamp \<times> nat" where
  "index_key m = (msg_created_at m, msg_id m)"

definition newest_first :: "message_row list \<Rightarrow> bool" where
  "newest_first rows = sorted_wrt (\<lambda>a b. msg_created_at b \<le> msg_created_at a) rows"

definition select_messages :: "db \<Rightarrow> session_id \<Rightarrow> nat \<Rightarrow> message_row list \<Rightarrow> bool" where
  "select_messages d sid limit fetched =
     (if is_postgres d then
        distinct fetched \<and>
        set fetched \<subseteq> set (session_rows d sid) \<and>
        length fetched = min limit (length (session_rows d sid)) \<and>
        newest_first fetched \<and>
        list_all (\<lambda>r. r \<in> set fetched \<or>
                       list_all (\<lambda>f. msg_created_at r \<le> msg_created_at f) fetched)
                 (session_rows d sid)
      else fetched = take limit (rev (sort_key index_key (session_rows d sid))))"

text \<open>
  What Python does with the rows: \<^verbatim>\<open>[dict(row) for row in cursor.fetchall()]\<close>, then
  \<^verbatim>\<open>list(reversed(messages))\<close>. The second query of the SQLite branch runs only when
  the first one raises, which it does not on the schema that the constructor creates.
\<close>

record message_dict =
  role :: string
  content :: string
  provider :: "string option"
  created_at_of :: timestamp

definition dict_of_row :: "message_row \<Rightarrow> message_dict" where
  "dict_of_row m = \<lparr>role = msg_role m, content = msg_content m, provider = msg_provider m,
                    created_at_of = msg_created_at m\<rparr>"

definition get_session_messages ::
  "db \<Rightarrow> session_id \<Rightarrow> nat \<Rightarrow> message_dict list \<Rightarrow> bool" where
  "get_session_messages d sid limit result =
     (\<exists>fetched. select_messages d sid limit fetched \<and> result = rev (map dict_of_row fetched))"

section \<open>More of Python, for the quiz handlers\<close>

text \<open>A number as Python's arithmetic, comparison and indexing take it.\<close>

fun as_int :: "json \<Rightarrow> int option" where
  "as_int (JInt i) = Some i"
| "as_int (JBool b) = Some (if b then 1 else 0)"
| "as_int _ = None"

text \<open>\<^verbatim>\<open>x + n\<close> and \<^verbatim>\<open>x >= n\<close> for an integer \<open>n\<close>.\<close>

definition py_add :: "json \<Rightarrow> int \<Rightarrow> pyerr + json" where
  "py_add x n = (case as_int x of None \<Rightarrow> Inl TypeError | Some i \<Rightarrow> Inr (JInt (i + n)))"

definition py_ge :: "json \<Rightarrow> int \<Rightarrow> pyerr + bool" where
  "py_ge x n = (case as_int x of None \<Rightarrow> Inl TypeError | Some i \<Rightarrow> Inr (n \<le> i))"

fun py_len :: "json \<Rightarrow> pyerr + nat" where
  "py_len (JList xs) = Inr (length xs)"
| "py_len (JStr s) = Inr (length s)"
| "py_len (JObj kvs) = Inr (length kvs)"
| "py_len _ = Inl TypeError"

text \<open>\<^verbatim>\<open>xs[i]\<close>: a negative index counts from the end.\<close>

definition list_index :: "'a list \<Rightarrow> int \<Rightarrow> pyerr + 'a" where
  "list_index xs i =
     (if 0 \<le> i \<and> i < int (length xs) then Inr (xs ! nat i)
      else if i < 0 \<and> - int (length xs) \<le> i then Inr (xs ! nat (int (length xs) + i))
      else Inl IndexError)"

fun py_index :: "json \<Rightarrow> json \<Rightarrow> pyerr + json" where
  "py_index (JList xs) idx =
     (case as_int idx of None \<Rightarrow> Inl TypeError | Some i \<Rightarrow> list_index xs i)"
| "py_index (JStr s) idx =
     (case as_int idx of
        None \<Rightarrow> Inl TypeError
      | Some i \<Rightarrow> (case list_index s i of Inl e \<Rightarrow> Inl e | Inr c \<Rightarrow> Inr (JStr [c])))"
| "py_index (JObj kvs) idx =
     (case idx of
        JStr k \<Rightarrow> py_getitem (JObj kvs) k
      | JList xs \<Rightarrow> Inl TypeError
      | JObj ys \<Rightarrow> Inl TypeError
      | _ \<Rightarrow> Inl KeyError)"
| "py_index _ idx = Inl TypeError"

text \<open>\<^verbatim>\<open>xs.append(x)\<close>.\<close>

fun py_append :: "json \<Rightarrow> json \<Rightarrow> pyerr + json" where
  "py_append (JList xs) x = Inr (JList (xs @ [x]))"
| "py_append _ x = Inl AttributeError"

text \<open>
  \<^verbatim>\<open>int(x)\<close>. A string is stripped of white space and read as an optional sign and
  decimal digits, single underscores allowed between digits. The white space of
  \<^verbatim>\<open>int\<close> is tab to carriage return, the blank and, beyond ASCII, what Unicode calls
  a space (below 256: next line and no-break space); the separators
  \<^verbatim>\<open>\x1c\<close> to \<^verbatim>\<open>\x1f\<close> are not among it. A string of more than
  \<^verbatim>\<open>sys.int_max_str_digits\<close> digits (4300 unless configured) is refused, whatever
  the digits are; the sign, the underscores and the white space do not count.
\<close>

definition is_space :: "char \<Rightarrow> bool" where
  "is_space c = ((of_char c :: nat) \<in> {9, 10, 11, 12, 13, 32, 133, 160})"

definition int_max_str_digits :: nat where
  "int_max_str_digits = 4300"

definition digit :: "char \<Rightarrow> nat option" where
  "digit c = (let n = (of_char c :: nat) in if 48 \<le> n \<and> n \<le> 57 then Some (n - 48) else None)"

fun digits :: "string \<Rightarrow> nat \<Rightarrow> nat option" where
  "digits [] acc = Some acc"
| "digits [c] acc = (case digit c of None \<Rightarrow> None | Some v \<Rightarrow> Some (acc * 10 + v))"
| "digits (c # c' # cs) acc =
     (if c = CHR ''_'' then
        (case digit c' of None \<Rightarrow> None | Some v \<Rightarrow> digits cs (acc * 10 + v))
      else (case digit c of None \<Rightarrow> None | Some v \<Rightarrow> digits (c' # cs) (acc * 10 + v)))"

definition decimal :: "string \<Rightarrow> nat option" where
  "decimal s =
     (if int_max_str_digits < length (filter (\<lambda>c. digit c \<noteq> None) s) then None
      else case s of
             [] \<Rightarrow> None
           | c # cs \<Rightarrow> (case digit c of None \<Rightarrow> None | Some v \<Rightarrow> digits cs v))"

definition strip :: "string \<Rightarrow> string" where
  "strip s = dropWhile is_space (rev (dropWhile is_space (rev s)))"

definition int_of_str :: "string \<Rightarrow> pyerr + int" where
  "int_of_str s =
     (case strip s of
        [] \<Rightarrow> Inl ValueError
      | c # cs \<Rightarrow>
          (if c = CHR ''-'' then
             (case decimal cs of None \<Rightarrow> Inl ValueError | Some n \<Rightarrow> Inr (- int n))
           else if c = CHR ''+'' then
             (case decimal cs of None \<Rightarrow> Inl ValueError | Some n \<Rightarrow> Inr (int n))
           else
             (case decimal (c # cs) of None \<Rightarrow> Inl ValueError | Some n \<Rightarrow> Inr (int n))))"

fun py_int :: "json \<Rightarrow> pyerr + int" where
  "py_int (JInt i) = Inr i"
| "py_int (JBool b) = Inr (if b then 1 else 0)"
| "py_int (JStr s) = int_of_str s"
| "py_int _ = Inl TypeError"

text \<open>
  \<^verbatim>\<open>str(x)\<close> as an f-string formats a value, with \<^verbatim>\<open>repr\<close> inside lists and dicts.
  Characters are code points below 256.
\<close>

definition digit_char :: "nat \<Rightarrow> char" where
  "digit_char n = ''0123456789'' ! n"

fun string_of_nat :: "nat \<Rightarrow> string" where
  "string_of_nat n =
     (let last_digit = digit_char (n mod 10)
      in if 10 \<le> n then string_of_nat (n div 10) @ [last_digit] else [last_digit])"

declare string_of_nat.simps [simp del]

definition string_of_int :: "int \<Rightarrow> string" where
  "string_of_int i = (if i < 0 then CHR ''-'' # string_of_nat (nat (- i)) else string_of_nat (nat i))"

definition hex_digit :: "nat \<Rightarrow> char" where
  "hex_digit n = ''0123456789abcdef'' ! n"

definition repr_char :: "char \<Rightarrow> char \<Rightarrow> string" where
  "repr_char quote c =
     (let n = (of_char c :: nat) in
      if c = CHR 0x5C then [CHR 0x5C, CHR 0x5C]
      else if c = quote then [CHR 0x5C, quote]
      else if n = 10 then [CHR 0x5C, CHR ''n'']
      else if n = 13 then [CHR 0x5C, CHR ''r'']
      else if n = 9 then [CHR 0x5C, CHR ''t'']
      else if n < 32 \<or> (127 \<le> n \<and> n \<le> 160) \<or> n = 173 then
        [CHR 0x5C, CHR ''x'', hex_digit (n div 16), hex_digit (n mod 16)]
      else [c])"

definition repr_str :: "string \<Rightarrow> string" where
  "repr_str s =
     (let quote = (if CHR 0x27 \<in> set s \<and> CHR 0x22 \<notin> set s then CHR 0x22 else CHR 0x27)
      in quote # concat (map (repr_char quote) s) @ [quote])"

fun join :: "string \<Rightarrow> string list \<Rightarrow> string" where
  "join sep [] = []"
| "join sep [x] = x"
| "join sep (x # y # ys) = x @ sep @ join sep (y # ys)"

fun py_repr :: "json \<Rightarrow> string" where
  "py_repr JNull = ''None''"
| "py_repr (JBool b) = (if b then ''True'' else ''False'')"
| "py_repr (JInt i) = string_of_int i"
| "py_repr (JStr s) = repr_str s"
| "py_repr (JList xs) = ''['' @ join '', '' (map py_repr xs) @ '']''"
| "py_repr (JObj kvs) =
     ''{'' @ join '', '' (map (\<lambda>kv. repr_str (fst kv) @ '': '' @ py_repr (snd kv)) kvs) @ ''}''"

fun py_str :: "json \<Rightarrow> string" where
  "py_str (JStr s) = s"
| "py_str x = py_repr x"

section \<open>The quiz endpoints of \<^verbatim>\<open>app.py\<close>\<close>

text \<open>
  A handler ends with \<^verbatim>\<open>jsonify(body), status\<close> or with an exception nobody
  catches; either way the database keeps what was committed before. The session id is
  taken as the request carries it: a string, or nothing (the field is missing or
  \<^verbatim>\<open>null\<close>). \<open>attempt r d k\<close> evaluates \<open>r\<close> while the database is \<open>d\<close>: an exception
  ends the request there, a value goes on to \<open>k\<close>.
\<close>

datatype outcome = Reply json nat | Raised pyerr

definition attempt :: "pyerr + 'a \<Rightarrow> db \<Rightarrow> ('a \<Rightarrow> outcome \<times> db) \<Rightarrow> outcome \<times> db" where
  "attempt r d k = (case r of Inl e \<Rightarrow> (Raised e, d) | Inr x \<Rightarrow> k x)"

definition error_body :: "string \<Rightarrow> json" where
  "error_body msg = JObj [(''error'', JStr msg)]"

definition no_session_id :: "session_id option \<Rightarrow> bool" where
  "no_session_id session_id = (case session_id of None \<Rightarrow> True | Some s \<Rightarrow> s = [])"

text \<open>
  What \<^verbatim>\<open>start_quiz\<close> gets from the language model, up to
  \<^verbatim>\<open>questions = json.loads(cleaned_text)\<close>: the provider raised, the response was
  empty, the cleaned text did not parse, or it parsed to a JSON value.
\<close>

datatype llm_response = ProviderRaised | EmptyResponse | Unparseable | Parsed json

definition num_questions :: nat where
  "num_questions = 10"

definition generic_failure :: json where
  "generic_failure = error_body ''Failed to generate quiz. Please try again.''"

definition quiz_state :: "json list \<Rightarrow> json" where
  "quiz_state questions =
     JObj [(''questions'', JList questions),
           (''current_index'', JInt 0),
           (''score'', JInt 0),
           (''completed'', JBool False),
           (''history'', JList [])]"

text \<open>
  \<^verbatim>\<open>start_quiz\<close>. Everything from the call of the provider on is inside
  \<^verbatim>\<open>try ... except Exception\<close>, so an exception there is a 500 reply; the reading of
  the subject is outside it.
\<close>

definition start_quiz :: "db \<Rightarrow> session_id option \<Rightarrow> llm_response \<Rightarrow> outcome \<times> db" where
  "start_quiz d session_id llm =
     (if no_session_id session_id then (Reply (error_body ''Session ID required'') 400, d)
      else let sid = the session_id in
        if \<not> session_exists d sid then (Reply (error_body ''Session not found'') 404, d)
        else attempt (get_session_subject d sid) d (\<lambda>subject.
          if \<not> truthy subject then
            (Reply (error_body ''Session has no selected subject. Please start a new chat.'') 400, d)
          else
            (case llm of
               ProviderRaised \<Rightarrow> (Reply generic_failure 500, d)
             | EmptyResponse \<Rightarrow>
                 (Reply (error_body ''LLM returned empty response. Please try again.'') 500, d)
             | Unparseable \<Rightarrow>
                 (Reply (error_body ''Failed to parse quiz questions. Please try again.'') 500, d)
             | Parsed (JList (q # qs)) \<Rightarrow>
                 (let questions = take num_questions (q # qs) in
                  case update_session_metadata d sid ''quiz'' (quiz_state questions) of
                    (Inl e, d') \<Rightarrow> (Reply generic_failure 500, d')
                  | (Inr False, d') \<Rightarrow> (Reply (error_body ''Failed to save quiz state'') 500, d')
                  | (Inr True, d') \<Rightarrow>
                      (let first_q = hd questions in
                       case py_getitem first_q ''question'' of
                         Inl e \<Rightarrow> (Reply generic_failure 500, d')
                       | Inr question \<Rightarrow>
                           (case py_getitem first_q ''options'' of
                              Inl e \<Rightarrow> (Reply generic_failure 500, d')
                            | Inr options \<Rightarrow>
                                (Reply (JObj [(''question'', question),
                                              (''options'', options),
                                              (''index'', JInt 0),
                                              (''total'', JInt (int (length questions)))]) 200,
                                 d'))))
             | Parsed _ \<Rightarrow> (Reply generic_failure 500, d))))"

text \<open>
  \<^verbatim>\<open>submit_quiz_answer\<close>. The history entry keeps \<^verbatim>\<open>answer_index\<close> as the request
  sent it; \<^verbatim>\<open>append\<close> changes the list inside the quiz in place.
\<close>

definition submit_quiz_answer :: "db \<Rightarrow> session_id option \<Rightarrow> json \<Rightarrow> outcome \<times> db" where
  "submit_quiz_answer d session_id answer_index =
     (if no_session_id session_id \<or> answer_index = JNull then
        (Reply (error_body ''Missing parameters'') 400, d)
      else let sid = the session_id in
        attempt (get_session_metadata d sid) d (\<lambda>metadata.
        attempt (py_get metadata ''quiz'' JNull) d (\<lambda>quiz.
        if \<not> truthy quiz then (Reply (error_body ''No active quiz found'') 400, d)
        else
        attempt (py_get quiz ''completed'' JNull) d (\<lambda>completed.
        if truthy completed then (Reply (error_body ''No active quiz found'') 400, d)
        else
        attempt (py_getitem quiz ''current_index'') d (\<lambda>idx.
        attempt (py_getitem quiz ''questions'') d (\<lambda>questions.
        attempt (py_len questions) d (\<lambda>n.
        attempt (py_ge idx (int n)) d (\<lambda>finished.
        if finished then (Reply (error_body ''Quiz already finished'') 400, d)
        else
        attempt (py_index questions idx) d (\<lambda>current_q.
        attempt (py_getitem current_q ''correct_index'') d (\<lambda>correct_index.
        attempt (py_int answer_index) d (\<lambda>a.
        attempt (py_int correct_index) d (\<lambda>c.
        let is_correct = (a = c) in
        attempt (py_getitem quiz ''history'') d (\<lambda>history.
        attempt (py_append history
                   (JObj [(''question_index'', idx),
                          (''selected'', answer_index),
                          (''correct'', JBool is_correct)])) d (\<lambda>history'.
        attempt (py_setitem quiz ''history'' history') d (\<lambda>quiz1.
        attempt (if is_correct then
                   (case py_getitem quiz1 ''score'' of
                      Inl e \<Rightarrow> Inl e
                    | Inr score \<Rightarrow>
                        (case py_add score 1 of
                           Inl e \<Rightarrow> Inl e
                         | Inr score' \<Rightarrow> py_setitem quiz1 ''score'' score'))
                 else Inr quiz1) d (\<lambda>quiz2.
        case update_session_metadata d sid ''quiz'' quiz2 of (saved, d') \<Rightarrow>
        attempt saved d' (\<lambda>_.
        attempt (py_get current_q ''explanation'' (JStr ''No explanation provided.'')) d'
          (\<lambda>explanation.
        attempt (py_getitem quiz2 ''score'') d' (\<lambda>score.
          (Reply (JObj [(''is_correct'', JBool is_correct),
                        (''correct_index'', correct_index),
                        (''explanation'', explanation),
                        (''score'', score)]) 200,
           d'))))))))))))))))))))"

text \<open>
  \<^verbatim>\<open>next_question\<close>. The advanced index is saved first; on completion the flag is
  set and the quiz is saved a second time.
\<close>

definition next_question :: "db \<Rightarrow> session_id option \<Rightarrow> outcome \<times> db" where
  "next_question d session_id =
     (if no_session_id session_id then (Reply (error_body ''Session ID required'') 400, d)
      else let sid = the session_id in
        attempt (get_session_metadata d sid) d (\<lambda>metadata.
        attempt (py_get metadata ''quiz'' JNull) d (\<lambda>quiz.
        if \<not> truthy quiz then (Reply (error_body ''No active quiz'') 400, d)
        else
        attempt (py_getitem quiz ''current_index'') d (\<lambda>old_index.
        attempt (py_add old_index 1) d (\<lambda>idx.
        attempt (py_setitem quiz ''current_index'' idx) d (\<lambda>quiz1.
        attempt (py_getitem quiz1 ''questions'') d (\<lambda>questions.
        case update_session_metadata d sid ''quiz'' quiz1 of (saved, d1) \<Rightarrow>
        attempt saved d1 (\<lambda>_.
        attempt (py_len questions) d1 (\<lambda>n.
        attempt (py_ge idx (int n)) d1 (\<lambda>finished.
        if finished then
          attempt (py_setitem quiz1 ''completed'' (JBool True)) d1 (\<lambda>quiz2.
          case update_session_metadata d1 sid ''quiz'' quiz2 of (saved2, d2) \<Rightarrow>
          attempt saved2 d2 (\<lambda>_.
          attempt (py_getitem quiz2 ''score'') d2 (\<lambda>score.
            (Reply (JObj [(''completed'', JBool True),
                          (''score'', score),
                          (''total'', JInt (int n)),
                          (''summary'', JStr (''You scored '' @ py_str score @ '' out of ''
                                              @ string_of_nat n @ ''!''))]) 200,
             d2))))
        else
          attempt (py_index questions idx) d1 (\<lambda>next_q.
          attempt (py_getitem next_q ''question'') d1 (\<lambda>question.
          attempt (py_getitem next_q ''options'') d1 (\<lambda>options.
            (Reply (JObj [(''completed'', JBool False),
                          (''question'', question),
                          (''options'', options),
                          (''index'', idx),
                          (''total'', JInt (int n))]) 200,
             d1))))))))))))))"

section \<open>Notions used to state the properties\<close>

text \<open>The quiz a session carries: the value at \<^verbatim>\<open>"quiz"\<close> of the document that
  \<^verbatim>\<open>get_session_metadata\<close> returns.\<close>

definition stored_quiz :: "db \<Rightarrow> session_id \<Rightarrow> json option" where
  "stored_quiz d sid =
     (case get_session_metadata d sid of
        Inr (JObj meta) \<Rightarrow> map_of meta ''quiz''
      | _ \<Rightarrow> None)"

text \<open>A quiz with the keys in the order \<^verbatim>\<open>start_quiz\<close> writes them; item assignment
  keeps that order.\<close>

definition quiz_json :: "json list \<Rightarrow> int \<Rightarrow> int \<Rightarrow> bool \<Rightarrow> json list \<Rightarrow> json" where
  "quiz_json questions current_index score completed history =
     JObj [(''questions'', JList questions),
           (''current_index'', JInt current_index),
           (''score'', JInt score),
           (''completed'', JBool completed),
           (''history'', JList history)]"

text \<open>A quiz whose \<^verbatim>\<open>completed\<close> flag is set, and a session that carries one.\<close>

definition is_completed :: "json \<Rightarrow> bool" where
  "is_completed quiz =
     (case quiz of
        JObj q \<Rightarrow> (case map_of q ''completed'' of Some c \<Rightarrow> truthy c | None \<Rightarrow> False)
      | _ \<Rightarrow> False)"

definition quiz_completed :: "db \<Rightarrow> session_id \<Rightarrow> bool" where
  "quiz_completed d sid =
     (case stored_quiz d sid of Some quiz \<Rightarrow> is_completed quiz | None \<Rightarrow> False)"

text \<open>The database after \<open>k\<close> calls of \<^verbatim>\<open>/quiz/next\<close> for one session.\<close>

fun advance :: "nat \<Rightarrow> db \<Rightarrow> session_id \<Rightarrow> db" where
  "advance 0 d sid = d"
| "advance (Suc k) d sid = snd (next_question (advance k d sid) (Some sid))"

text \<open>
  A sequence of calls for one session, and the database after it. \<open>submissions i calls\<close>
  pairs every submitted answer with the \<^verbatim>\<open>current_index\<close> at the time of its call,
  when the index is \<open>i\<close> before the first call; \<open>final_index\<close> is the index after the
  last one.
\<close>

datatype quiz_call = Submit json | Next

fun run :: "db \<Rightarrow> session_id \<Rightarrow> quiz_call list \<Rightarrow> db" where
  "run d sid [] = d"
| "run d sid (Submit a # calls) = run (snd (submit_quiz_answer d (Some sid) a)) sid calls"
| "run d sid (Next # calls) = run (snd (next_question d (Some sid))) sid calls"

fun submissions :: "int \<Rightarrow> quiz_call list \<Rightarrow> (int \<times> json) list" where
  "submissions i [] = []"
| "submissions i (Submit a # calls) = (i, a) # submissions i calls"
| "submissions i (Next # calls) = submissions (i + 1) calls"

fun final_index :: "int \<Rightarrow> quiz_call list \<Rightarrow> int" where
  "final_index i [] = i"
| "final_index i (Submit a # calls) = final_index i calls"
| "final_index i (Next # calls) = final_index (i + 1) calls"

fun is_submit :: "quiz_call \<Rightarrow> bool" where
  "is_submit (Submit a) = True"
| "is_submit Next = False"

text \<open>The answer equals \<^verbatim>\<open>questions[i]["correct_index"]\<close>, both taken as integers.\<close>

definition matches :: "json list \<Rightarrow> int \<Rightarrow> json \<Rightarrow> bool" where
  "matches qs i a =
     (case py_index (JList qs) (JInt i) of
        Inl e \<Rightarrow> False
      | Inr q \<Rightarrow>
          (case py_getitem q ''correct_index'' of
             Inl e \<Rightarrow> False
           | Inr ci \<Rightarrow>
               (case (py_int a, py_int ci) of
                  (Inr n, Inr c) \<Rightarrow> n = c
                | _ \<Rightarrow> False)))"

text \<open>
  The answer can be graded against question \<open>i\<close>: the question is there and carries a
  \<^verbatim>\<open>correct_index\<close>, and \<^verbatim>\<open>int\<close> accepts both it and the answer.
\<close>

definition gradable :: "json list \<Rightarrow> int \<Rightarrow> json \<Rightarrow> bool" where
  "gradable qs i a =
     (0 \<le> i \<and> i < int (length qs) \<and>
      (case py_getitem (qs ! nat i) ''correct_index'' of
         Inl e \<Rightarrow> False
       | Inr ci \<Rightarrow> (case (py_int a, py_int ci) of (Inr n, Inr c) \<Rightarrow> True | _ \<Rightarrow> False)))"

text \<open>The calls find the quiz active: every answer can be graded and no \<^verbatim>\<open>Next\<close>
  reaches the end of the questions.\<close>

fun accepted :: "json list \<Rightarrow> int \<Rightarrow> quiz_call list \<Rightarrow> bool" where
  "accepted qs i [] = True"
| "accepted qs i (Submit a # calls) = (gradable qs i a \<and> accepted qs i calls)"
| "accepted qs i (Next # calls) =
     (0 \<le> i + 1 \<and> i + 1 < int (length qs) \<and> accepted qs (i + 1) calls)"

definition history_entry :: "json list \<Rightarrow> int \<times> json \<Rightarrow> json" where
  "history_entry qs sub =
     JObj [(''question_index'', JInt (fst sub)),
           (''selected'', snd sub),
           (''correct'', JBool (matches qs (fst sub) (snd sub)))]"

text \<open>A handler's result with the message table replaced.\<close>

definition with_messages :: "message_row list \<Rightarrow> outcome \<times> db \<Rightarrow> outcome \<times> db" where
  "with_messages ms p = (fst p, (snd p)\<lparr>messages := ms\<rparr>)"

definition keys :: "json \<Rightarrow> string list" where
  "keys j = (case j of JObj kvs \<Rightarrow> map fst kvs | _ \<Rightarrow> [])"

text \<open>The database after one \<^verbatim>\<open>add_message\<close> for each message of a list.\<close>

fun add_messages :: "db \<Rightarrow> session_id \<Rightarrow> (string \<times> string \<times> string option) list \<Rightarrow> db" where
  "add_messages d sid [] = d"
| "add_messages d sid ((r, c, p) # ms) = add_messages (snd (add_message d sid r c p)) sid ms"

text \<open>
  The time stamps of a session's rows do not fall in insertion order; on PostgreSQL,
  where the query leaves the order among equal stamps open, they grow.
\<close>

definition stamps_in_order :: "db \<Rightarrow> session_id \<Rightarrow> bool" where
  "stamps_in_order d sid =
     (if is_postgres d then sorted_wrt (<) (map msg_created_at (session_rows d sid))
      else sorted_wrt (\<le>) (map msg_created_at (session_rows d sid)))"


text \<open>
  The clock does not run backwards and is not behind the rows of the session; on
  PostgreSQL, where \<^verbatim>\<open>NOW()\<close> is read once for each transaction, it moves from one
  reading to the next and is ahead of the rows.
\<close>

definition clock_runs_forward :: "db \<Rightarrow> session_id \<Rightarrow> bool" where
  "clock_runs_forward d sid =
     (if is_postgres d then
        strict_mono (clock d) \<and>
        list_all (\<lambda>m. msg_created_at m < now d) (session_rows d sid)
      else
        mono (clock d) \<and>
        list_all (\<lambda>m. msg_created_at m \<le> now d) (session_rows d sid))"


subsection \<open>Example data\<close>

definition biology :: json where
  "biology = JObj [(''subject'', JStr ''Biology'')]"

definition q0 :: json where
  "q0 = JObj [(''question'', JStr ''Q0''),
              (''options'', JList [JStr ''a'', JStr ''b'', JStr ''c'', JStr ''d'']),
              (''correct_index'', JInt 1),
              (''explanation'', JStr ''E0''),
              (''subject'', JStr ''Biology'')]"

definition q1 :: json where
  "q1 = JObj [(''question'', JStr ''Q1''),
              (''options'', JList [JStr ''e'', JStr ''f'', JStr ''g'', JStr ''h'']),
              (''correct_index'', JInt 0),
              (''explanation'', JStr ''E1''),
              (''subject'', JStr ''Physics'')]"

definition session_with :: "cell \<Rightarrow> session_row" where
  "session_with c = \<lparr>title = None, created_at = 0, updated_at = 0, metadata = c\<rparr>"

definition store_with :: "bool \<Rightarrow> cell \<Rightarrow> message_row list \<Rightarrow> db" where
  "store_with pg c ms =
     \<lparr>is_postgres = pg, sessions = [''s1'' \<mapsto> session_with c], messages = ms,
      next_msg_id = Suc (length ms), clock = (\<lambda>n. 10 + n), clock_reads = 0\<rparr>"

definition empty_store :: db where
  "empty_store =
     \<lparr>is_postgres = False, sessions = Map.empty, messages = [], next_msg_id = 1,
      clock = (\<lambda>n. 10 + n), clock_reads = 0\<rparr>"

definition msg1 :: message_row where
  "msg1 = \<lparr>msg_id = 1, msg_session = ''s1'', msg_role = ''user'', msg_content = ''Hello'',
           msg_provider = None, msg_created_at = 5\<rparr>"

definition msg2 :: message_row where
  "msg2 = \<lparr>msg_id = 2, msg_session = ''s1'', msg_role = ''assistant'',
           msg_content = ''Hi there!'', msg_provider = Some ''x'', msg_created_at = 5\<rparr>"

definition quiz_store :: "message_row list \<Rightarrow> db" where
  "quiz_store ms =
     store_with False
       (PyStr (Dumps (JObj [(''subject'', JStr ''Biology''), (''quiz'', quiz_state [q0, q1])])))
       ms"

definition quiz_store_at :: "int \<Rightarrow> int \<Rightarrow> bool \<Rightarrow> db" where
  "quiz_store_at i s c =
     store_with False
       (PyStr (Dumps (JObj [(''subject'', JStr ''Biology''),
                            (''quiz'', quiz_json [q0, q1] i s c [])])))
       []"


definition rewound_store :: db where
  "rewound_store =
     \<lparr>is_postgres = False, sessions = [''s1'' \<mapsto> session_with SqlNull], messages = [],
      next_msg_id = 1, clock = (\<lambda>n. 10 - n), clock_reads = 0\<rparr>"

definition early1 :: message_row where
  "early1 = msg1\<lparr>msg_created_at := 10\<rparr>"

definition early2 :: message_row where
  "early2 = msg2\<lparr>msg_created_at := 8\<rparr>"

section \<open>The metadata store\<close>

lemma map_of_dict_set: "map_of (dict_set kvs k v) = (map_of kvs)(k \<mapsto> v)"
  by (induction kvs) (auto simp: fun_eq_iff)

lemma get_session_metadata_missing:
  "sessions d sid = None \<Longrightarrow> get_session_metadata d sid = Inr (JObj [])"
  by (simp add: get_session_metadata_def)

lemma update_as_get:
  "sessions d sid = Some row \<Longrightarrow> get_session_metadata d sid = Inr j \<Longrightarrow>
   update_session_metadata d sid k v =
     (case py_setitem j k v of
        Inl e \<Rightarrow> (Inl e, d)
      | Inr doc \<Rightarrow>
          (Inr True,
           (tick d)\<lparr>sessions := (sessions d)(sid \<mapsto>
              row\<lparr>metadata := (if is_postgres d then Decoded doc else PyStr (Dumps doc)),
                  updated_at := now d\<rparr>)\<rparr>))"
  by (cases "metadata row" rule: cell_truthy.cases)
     (auto simp: get_session_metadata_def update_session_metadata_def Let_def
           split: option.splits sum.splits if_splits)

lemma update_document:
  assumes "sessions d sid \<noteq> None" and "get_session_metadata d sid = Inr (JObj doc)"
  shows "fst (update_session_metadata d sid k v) = Inr True"
    and "get_session_metadata (snd (update_session_metadata d sid k v)) sid
           = Inr (JObj (dict_set doc k v))"
    and "messages (snd (update_session_metadata d sid k v)) = messages d"
    and "is_postgres (snd (update_session_metadata d sid k v)) = is_postgres d"
    and "sessions (snd (update_session_metadata d sid k v)) sid \<noteq> None"
proof -
  from assms(1) obtain row where row: "sessions d sid = Some row" by auto
  note u = update_as_get [OF row assms(2), of k v]
  show "fst (update_session_metadata d sid k v) = Inr True" by (simp add: u)
  show "get_session_metadata (snd (update_session_metadata d sid k v)) sid
           = Inr (JObj (dict_set doc k v))"
    by (simp add: u tick_def get_session_metadata_def)
  show "messages (snd (update_session_metadata d sid k v)) = messages d"
    by (simp add: u tick_def)
  show "is_postgres (snd (update_session_metadata d sid k v)) = is_postgres d"
    by (simp add: u tick_def)
  show "sessions (snd (update_session_metadata d sid k v)) sid \<noteq> None"
    by (simp add: u tick_def)
qed

text \<open>
  Claim C7. \<^verbatim>\<open>get_session_metadata\<close> returns the stored document as it is when one is
  stored and parses, on either backend; it returns the empty object when the session is
  missing, when the column is NULL and when the stored text does not parse; and it always
  returns, so the parse error of \<^verbatim>\<open>json.loads\<close> never reaches the caller.
\<close>

theorem get_session_metadata_lenient:
  "(sessions d sid = None \<longrightarrow> get_session_metadata d sid = Inr (JObj [])) \<and>
   (\<forall>row. sessions d sid = Some row \<longrightarrow>
      (metadata row = SqlNull \<longrightarrow> get_session_metadata d sid = Inr (JObj [])) \<and>
      (\<forall>s. metadata row = PyStr (NotJson s) \<longrightarrow>
           get_session_metadata d sid = Inr (JObj [])) \<and>
      (\<forall>j. metadata row = PyStr (Dumps j) \<longrightarrow> get_session_metadata d sid = Inr j) \<and>
      (\<forall>doc. is_postgres d \<and> metadata row = Decoded (JObj doc) \<longrightarrow>
           get_session_metadata d sid = Inr (JObj doc))) \<and>
   (\<exists>j. get_session_metadata d sid = Inr j)"
  by (auto simp: get_session_metadata_def Let_def split: option.splits sum.splits)

theorem get_session_metadata_lenient_witness:
  "get_session_metadata empty_store ''s1'' = Inr (JObj []) \<and>
   get_session_metadata (store_with False SqlNull []) ''s1'' = Inr (JObj []) \<and>
   get_session_metadata (store_with False (PyStr (NotJson ''{oops'')) []) ''s1'' = Inr (JObj []) \<and>
   get_session_metadata (store_with False (PyStr (Dumps biology)) []) ''s1'' = Inr biology \<and>
   get_session_metadata (store_with True (Decoded biology) []) ''s1'' = Inr biology"
proof -
  have "sessions empty_store ''s1'' = None"
    by (simp add: empty_store_def)
  moreover have "\<And>pg c. sessions (store_with pg c []) ''s1'' = Some (session_with c)"
    by (simp add: store_with_def)
  moreover have "\<And>c. metadata (session_with c) = c"
    by (simp add: session_with_def)
  moreover have "is_postgres (store_with True (Decoded biology) [])"
    by (simp add: store_with_def)
  ultimately show ?thesis
    using get_session_metadata_lenient [of empty_store "''s1''"]
          get_session_metadata_lenient [of "store_with False SqlNull []" "''s1''"]
          get_session_metadata_lenient [of "store_with False (PyStr (NotJson ''{oops'')) []" "''s1''"]
          get_session_metadata_lenient [of "store_with False (PyStr (Dumps biology)) []" "''s1''"]
          get_session_metadata_lenient [of "store_with True (Decoded biology) []" "''s1''"]
    by (simp add: biology_def)
qed

text \<open>
  Claim C4. On a session that does not exist \<^verbatim>\<open>update_session_metadata\<close> returns
  \<^verbatim>\<open>False\<close> and leaves the database as it is. On a session that exists and whose
  metadata reads as a document, it returns \<^verbatim>\<open>True\<close>, and \<^verbatim>\<open>get_session_metadata\<close>
  right after it returns a document with exactly the new value at the key and the old
  value at every other key: the value is replaced, never merged.
\<close>

theorem update_then_get_metadata:
  "(sessions d sid = None \<longrightarrow> update_session_metadata d sid k v = (Inr False, d)) \<and>
   (sessions d sid \<noteq> None \<and> get_session_metadata d sid = Inr (JObj doc) \<longrightarrow>
      fst (update_session_metadata d sid k v) = Inr True \<and>
      (\<exists>doc'. get_session_metadata (snd (update_session_metadata d sid k v)) sid = Inr (JObj doc') \<and>
         map_of doc' k = Some v \<and>
         (\<forall>k'. k' \<noteq> k \<longrightarrow> map_of doc' k' = map_of doc k') \<and>
         doc' = dict_set doc k v))"
  using update_document(1,2) [of d sid doc k v]
  by (auto simp: map_of_dict_set update_session_metadata_def)

theorem update_then_get_metadata_witness:
  "sessions (store_with False (PyStr (Dumps biology)) []) ''s1'' \<noteq> None \<and>
   get_session_metadata (store_with False (PyStr (Dumps biology)) []) ''s1''
     = Inr (JObj [(''subject'', JStr ''Biology'')]) \<and>
   fst (update_session_metadata (store_with False (PyStr (Dumps biology)) []) ''s1''
          ''quiz'' (JInt 7)) = Inr True \<and>
   get_session_metadata
     (snd (update_session_metadata (store_with False (PyStr (Dumps biology)) []) ''s1''
             ''quiz'' (JInt 7))) ''s1''
     = Inr (JObj [(''subject'', JStr ''Biology''), (''quiz'', JInt 7)]) \<and>
   sessions empty_store ''s1'' = None \<and>
   update_session_metadata empty_store ''s1'' ''quiz'' (JInt 7) = (Inr False, empty_store)"
proof -
  let ?d = "store_with False (PyStr (Dumps biology)) []"
  have h1: "sessions ?d ''s1'' \<noteq> None"
    by (simp add: store_with_def)
  have h2: "get_session_metadata ?d ''s1'' = Inr (JObj [(''subject'', JStr ''Biology'')])"
    by (simp add: get_session_metadata_def store_with_def session_with_def biology_def)
  have h3: "sessions empty_store ''s1'' = None"
    by (simp add: empty_store_def)
  from update_then_get_metadata [of ?d "''s1''" "''quiz''" "JInt 7" "[(''subject'', JStr ''Biology'')]"]
       update_then_get_metadata [of empty_store "''s1''" "''quiz''" "JInt 7" "[]"] h1 h2 h3
  show ?thesis by auto
qed

section \<open>Deleting a session\<close>

text \<open>
  Claim C6. \<^verbatim>\<open>delete_session\<close> returns \<^verbatim>\<open>False\<close> and changes nothing when the session
  does not exist. When it exists the call returns \<^verbatim>\<open>True\<close>; afterwards the session
  does not exist, none of its messages is left, and every other session keeps its row
  and its messages.
\<close>

theorem delete_session_cascade:
  "(\<not> session_exists d sid \<longrightarrow> delete_session d sid = (False, d)) \<and>
   (session_exists d sid \<longrightarrow>
      fst (delete_session d sid) = True \<and>
      \<not> session_exists (snd (delete_session d sid)) sid \<and>
      session_rows (snd (delete_session d sid)) sid = [] \<and>
      (\<forall>other. other \<noteq> sid \<longrightarrow>
         sessions (snd (delete_session d sid)) other = sessions d other \<and>
         session_rows (snd (delete_session d sid)) other = session_rows d other))"
  by (auto simp: delete_session_def session_exists_def session_rows_def filter_empty_conv
           intro: filter_cong)

theorem delete_session_cascade_witness:
  "\<not> session_exists empty_store ''s1'' \<and>
   delete_session empty_store ''s1'' = (False, empty_store) \<and>
   session_exists (store_with False SqlNull [msg1, msg2]) ''s1'' \<and>
   fst (delete_session (store_with False SqlNull [msg1, msg2]) ''s1'') = True \<and>
   \<not> session_exists (snd (delete_session (store_with False SqlNull [msg1, msg2]) ''s1'')) ''s1'' \<and>
   session_rows (snd (delete_session (store_with False SqlNull [msg1, msg2]) ''s1'')) ''s1'' = []"
proof -
  have "\<not> session_exists empty_store ''s1''"
    by (simp add: session_exists_def empty_store_def)
  moreover have "session_exists (store_with False SqlNull [msg1, msg2]) ''s1''"
    by (simp add: session_exists_def store_with_def)
  ultimately show ?thesis
    using delete_session_cascade [of empty_store "''s1''"]
          delete_session_cascade [of "store_with False SqlNull [msg1, msg2]" "''s1''"]
    by simp
qed

section \<open>The quiz\<close>

lemma attempt_simps:
  "attempt (Inr x) d k = k x"
  "attempt (Inl e) d k = (Raised e, d)"
  by (simp_all add: attempt_def)

lemma reply_attempt:
  assumes "fst (attempt r d k) = Reply body status"
  obtains x where "r = Inr x" and "fst (k x) = Reply body status"
  using assms by (cases r) (simp_all add: attempt_simps)

lemma stored_quiz_document:
  assumes "stored_quiz d sid = Some q"
  obtains meta where "get_session_metadata d sid = Inr (JObj meta)"
    and "map_of meta ''quiz'' = Some q" and "sessions d sid \<noteq> None"
proof -
  from assms obtain meta where m: "get_session_metadata d sid = Inr (JObj meta)"
    and q: "map_of meta ''quiz'' = Some q"
    by (auto simp: stored_quiz_def split: sum.splits json.splits)
  have "sessions d sid \<noteq> None"
  proof
    assume "sessions d sid = None"
    then have "get_session_metadata d sid = Inr (JObj [])"
      by (rule get_session_metadata_missing)
    with m q show False by simp
  qed
  with m q that show thesis by blast
qed

lemma save_quiz:
  assumes "stored_quiz d sid = Some q"
  shows "fst (update_session_metadata d sid ''quiz'' q') = Inr True"
    and "stored_quiz (snd (update_session_metadata d sid ''quiz'' q')) sid = Some q'"
    and "messages (snd (update_session_metadata d sid ''quiz'' q')) = messages d"
proof -
  from assms obtain meta where m: "get_session_metadata d sid = Inr (JObj meta)"
    and s: "sessions d sid \<noteq> None"
    by (rule stored_quiz_document)
  show "fst (update_session_metadata d sid ''quiz'' q') = Inr True"
    by (rule update_document(1) [OF s m])
  show "stored_quiz (snd (update_session_metadata d sid ''quiz'' q')) sid = Some q'"
    by (simp add: stored_quiz_def update_document(2) [OF s m] map_of_dict_set)
  show "messages (snd (update_session_metadata d sid ''quiz'' q')) = messages d"
    by (rule update_document(3) [OF s m])
qed

lemma next_question_completes:
  assumes sid: "sid \<noteq> []"
    and q: "stored_quiz d sid = Some (quiz_json qs i s c h)"
    and fin: "int (length qs) \<le> i + 1"
  shows "fst (next_question d (Some sid)) =
           Reply (JObj [(''completed'', JBool True),
                        (''score'', JInt s),
                        (''total'', JInt (int (length qs))),
                        (''summary'', JStr (''You scored '' @ string_of_int s @ '' out of ''
                                            @ string_of_nat (length qs) @ ''!''))]) 200"
    and "stored_quiz (snd (next_question d (Some sid))) sid = Some (quiz_json qs (i + 1) s True h)"
proof -
  from q obtain meta where m: "get_session_metadata d sid = Inr (JObj meta)"
    and mq: "map_of meta ''quiz'' = Some (quiz_json qs i s c h)"
    by (rule stored_quiz_document)
  let ?q1 = "quiz_json qs (i + 1) s c h"
  let ?d1 = "snd (update_session_metadata d sid ''quiz'' ?q1)"
  let ?q2 = "quiz_json qs (i + 1) s True h"
  let ?d2 = "snd (update_session_metadata ?d1 sid ''quiz'' ?q2)"
  note s1 = save_quiz [OF q, of ?q1]
  note s2 = save_quiz [OF s1(2), of ?q2]
  have nq: "next_question d (Some sid) =
          (Reply (JObj [(''completed'', JBool True),
                        (''score'', JInt s),
                        (''total'', JInt (int (length qs))),
                        (''summary'', JStr (''You scored '' @ string_of_int s @ '' out of ''
                                            @ string_of_nat (length qs) @ ''!''))]) 200, ?d2)"
    using sid fin s1(1) s2(1) unfolding next_question_def
    by (simp add: no_session_id_def m mq attempt_simps Let_def
                  quiz_json_def py_add_def py_ge_def case_prod_beta)
  show "fst (next_question d (Some sid)) =
           Reply (JObj [(''completed'', JBool True),
                        (''score'', JInt s),
                        (''total'', JInt (int (length qs))),
                        (''summary'', JStr (''You scored '' @ string_of_int s @ '' out of ''
                                            @ string_of_nat (length qs) @ ''!''))]) 200"
    by (simp add: nq)
  show "stored_quiz (snd (next_question d (Some sid))) sid = Some (quiz_json qs (i + 1) s True h)"
    by (simp add: nq s2(2))
qed



lemma snd_attempt: "(\<And>x. snd (k x) = d) \<Longrightarrow> snd (attempt r d k) = d"
  by (cases r) (simp_all add: attempt_simps)

lemma next_question_continues:
  assumes sid: "sid \<noteq> []"
    and q: "stored_quiz d sid = Some (quiz_json qs i s c h)"
    and lo: "0 \<le> i + 1" and hi: "i + 1 < int (length qs)"
  shows "stored_quiz (snd (next_question d (Some sid))) sid = Some (quiz_json qs (i + 1) s c h)"
    and "py_getitem (qs ! nat (i + 1)) ''question'' = Inr qt \<Longrightarrow>
         py_getitem (qs ! nat (i + 1)) ''options'' = Inr os \<Longrightarrow>
         fst (next_question d (Some sid)) =
           Reply (JObj [(''completed'', JBool False),
                        (''question'', qt),
                        (''options'', os),
                        (''index'', JInt (i + 1)),
                        (''total'', JInt (int (length qs)))]) 200"
proof -
  from q obtain meta where m: "get_session_metadata d sid = Inr (JObj meta)"
    and mq: "map_of meta ''quiz'' = Some (quiz_json qs i s c h)"
    by (rule stored_quiz_document)
  let ?q1 = "quiz_json qs (i + 1) s c h"
  let ?d1 = "snd (update_session_metadata d sid ''quiz'' ?q1)"
  note s1 = save_quiz [OF q, of ?q1]
  have nq: "next_question d (Some sid) =
          attempt (py_getitem (qs ! nat (i + 1)) ''question'') ?d1 (\<lambda>question.
          attempt (py_getitem (qs ! nat (i + 1)) ''options'') ?d1 (\<lambda>options.
            (Reply (JObj [(''completed'', JBool False),
                          (''question'', question),
                          (''options'', options),
                          (''index'', JInt (i + 1)),
                          (''total'', JInt (int (length qs)))]) 200,
             ?d1)))"
    using sid lo hi s1(1) unfolding next_question_def
    by (simp add: no_session_id_def m mq attempt_simps Let_def list_index_def
                  quiz_json_def py_add_def py_ge_def case_prod_beta)
  have "snd (next_question d (Some sid)) = ?d1"
    unfolding nq by (intro snd_attempt) simp
  then show "stored_quiz (snd (next_question d (Some sid))) sid = Some ?q1"
    by (simp add: s1(2))
  show "fst (next_question d (Some sid)) =
           Reply (JObj [(''completed'', JBool False),
                        (''question'', qt),
                        (''options'', os),
                        (''index'', JInt (i + 1)),
                        (''total'', JInt (int (length qs)))]) 200"
    if "py_getitem (qs ! nat (i + 1)) ''question'' = Inr qt"
      and "py_getitem (qs ! nat (i + 1)) ''options'' = Inr os"
    using that by (simp add: nq attempt_simps)
qed

lemma quiz_state_as_quiz_json: "quiz_state qs = quiz_json qs 0 0 False []"
  by (simp add: quiz_state_def quiz_json_def)

lemma quiz_completed_quiz_json:
  "stored_quiz d sid = Some (quiz_json qs i s c h) \<Longrightarrow> quiz_completed d sid = c"
  by (simp add: quiz_completed_def is_completed_def quiz_json_def)

lemma advance_before_end:
  assumes "sid \<noteq> []" and "stored_quiz d sid = Some (quiz_state qs)"
  shows "k < length qs \<Longrightarrow>
         stored_quiz (advance k d sid) sid = Some (quiz_json qs (int k) 0 False [])"
proof (induction k)
  case 0
  then show ?case using assms(2) by (simp add: quiz_state_as_quiz_json)
next
  case (Suc k)
  then have "stored_quiz (advance k d sid) sid = Some (quiz_json qs (int k) 0 False [])"
    by simp
  from next_question_continues(1) [OF assms(1) this] Suc.prems
  show ?case by (simp add: add.commute)
qed

lemma submit_accepted:
  assumes sid: "sid \<noteq> []"
    and q: "stored_quiz d sid = Some (quiz_json qs i s False h)"
    and g: "gradable qs i a"
  shows "stored_quiz (snd (submit_quiz_answer d (Some sid) a)) sid =
           Some (quiz_json qs i (if matches qs i a then s + 1 else s) False
                   (h @ [history_entry qs (i, a)]))"
    and "\<exists>ci e. py_getitem (qs ! nat i) ''correct_index'' = Inr ci \<and>
           py_get (qs ! nat i) ''explanation'' (JStr ''No explanation provided.'') = Inr e \<and>
           fst (submit_quiz_answer d (Some sid) a) =
             Reply (JObj [(''is_correct'', JBool (matches qs i a)),
                          (''correct_index'', ci),
                          (''explanation'', e),
                          (''score'', JInt (if matches qs i a then s + 1 else s))]) 200"
proof -
  from q obtain meta where m: "get_session_metadata d sid = Inr (JObj meta)"
    and mq: "map_of meta ''quiz'' = Some (quiz_json qs i s False h)"
    by (rule stored_quiz_document)
  from g obtain ci n c where i: "0 \<le> i" "i < int (length qs)"
    and ci: "py_getitem (qs ! nat i) ''correct_index'' = Inr ci"
    and n: "py_int a = Inr n" and c: "py_int ci = Inr c"
    by (auto simp: gradable_def split: sum.splits)
  from ci obtain kvs where kvs: "qs ! nat i = JObj kvs"
    by (cases "qs ! nat i") simp_all
  obtain e where e: "py_get (qs ! nat i) ''explanation'' (JStr ''No explanation provided.'') = Inr e"
    by (cases "map_of kvs ''explanation''") (simp_all add: kvs)
  from n have a: "a \<noteq> JNull" by auto
  have mt: "matches qs i a = (n = c)"
    using i ci n c by (simp add: matches_def list_index_def)
  let ?q' = "quiz_json qs i (if n = c then s + 1 else s) False (h @ [history_entry qs (i, a)])"
  let ?d' = "snd (update_session_metadata d sid ''quiz'' ?q')"
  note s1 = save_quiz [OF q, of ?q']
  have sub: "submit_quiz_answer d (Some sid) a =
          (Reply (JObj [(''is_correct'', JBool (n = c)),
                        (''correct_index'', ci),
                        (''explanation'', e),
                        (''score'', JInt (if n = c then s + 1 else s))]) 200, ?d')"
    using sid a i s1(1) unfolding submit_quiz_answer_def
    by (cases "n = c")
       (simp_all add: no_session_id_def m mq attempt_simps Let_def list_index_def ci n c e mt
                  history_entry_def quiz_json_def py_add_def py_ge_def case_prod_beta)
  show "stored_quiz (snd (submit_quiz_answer d (Some sid) a)) sid =
           Some (quiz_json qs i (if matches qs i a then s + 1 else s) False
                   (h @ [history_entry qs (i, a)]))"
    by (simp add: sub s1(2) mt)
  show "\<exists>ci e. py_getitem (qs ! nat i) ''correct_index'' = Inr ci \<and>
           py_get (qs ! nat i) ''explanation'' (JStr ''No explanation provided.'') = Inr e \<and>
           fst (submit_quiz_answer d (Some sid) a) =
             Reply (JObj [(''is_correct'', JBool (matches qs i a)),
                          (''correct_index'', ci),
                          (''explanation'', e),
                          (''score'', JInt (if matches qs i a then s + 1 else s))]) 200"
    using ci e by (simp add: sub mt)
qed

lemma run_accepted:
  assumes "sid \<noteq> []"
  shows "stored_quiz d sid = Some (quiz_json qs i s False h) \<Longrightarrow> accepted qs i calls \<Longrightarrow>
         stored_quiz (run d sid calls) sid =
           Some (quiz_json qs (final_index i calls)
                   (s + int (length (filter (\<lambda>sub. matches qs (fst sub) (snd sub))
                                            (submissions i calls))))
                   False
                   (h @ map (history_entry qs) (submissions i calls)))"
proof (induction i calls arbitrary: d s h rule: submissions.induct)
  case (1 i)
  then show ?case by simp
next
  case (2 i a calls)
  from "2.prems" have g: "gradable qs i a" and acc: "accepted qs i calls" by simp_all
  note st = submit_accepted(1) [OF assms "2.prems"(1) g]
  from "2.IH" [OF st acc] show ?case
    by (cases "matches qs i a") (simp_all add: algebra_simps)
next
  case (3 i calls)
  from "3.prems" have lo: "0 \<le> i + 1" and hi: "i + 1 < int (length qs)"
    and acc: "accepted qs (i + 1) calls" by simp_all
  note st = next_question_continues(1) [OF assms "3.prems"(1) lo hi]
  from "3.IH" [OF st acc] show ?case by simp
qed

lemma get_session_metadata_total: "\<exists>j. get_session_metadata d sid = Inr j"
  by (auto simp: get_session_metadata_def Let_def split: option.splits sum.splits)

lemma update_True_stored:
  assumes "update_session_metadata d sid k v = (Inr True, d')"
  shows "\<exists>doc. get_session_metadata d' sid = Inr (JObj doc) \<and> map_of doc k = Some v"
proof -
  from assms obtain row where row: "sessions d sid = Some row"
    by (auto simp: update_session_metadata_def split: option.splits)
  obtain j where j: "get_session_metadata d sid = Inr j"
    using get_session_metadata_total [of d sid] by blast
  from assms update_as_get [OF row j, of k v] obtain doc where
    set: "py_setitem j k v = Inr doc" and d': "d' = snd (update_session_metadata d sid k v)"
    by (auto split: sum.splits)
  from set obtain kvs where kvs: "j = JObj kvs"
    by (cases j) simp_all
  from row have ex: "sessions d sid \<noteq> None" by simp
  from update_document(2) [OF ex j [unfolded kvs], of k v] d'
  show ?thesis by (simp add: map_of_dict_set)
qed

lemma start_quiz_stores_quiz_state:
  assumes "fst (start_quiz d (Some sid) llm) = Reply body 200"
  shows "\<exists>q qs. llm = Parsed (JList (q # qs)) \<and>
           stored_quiz (snd (start_quiz d (Some sid) llm)) sid =
             Some (quiz_state (take num_questions (q # qs)))"
  using assms unfolding start_quiz_def
  by (auto simp: Let_def stored_quiz_def error_body_def generic_failure_def attempt_simps
           elim!: reply_attempt dest!: update_True_stored
           split: if_splits llm_response.splits json.splits list.splits sum.splits
                  bool.splits prod.splits)

text \<open>
  Claim C1. A session carries the quiz that \<^verbatim>\<open>start_quiz\<close> writes for \<open>N > 0\<close>
  questions (index 0, score 0, not completed; \<open>start_quiz_stores_quiz_state\<close> says that
  a 200 reply of \<^verbatim>\<open>start_quiz\<close> leaves exactly this quiz). After \<open>k < N\<close> calls of
  \<^verbatim>\<open>next_question\<close> the stored quiz has index \<open>k\<close> and is not completed, and the
  \<open>k\<close>-th call answers with question \<open>k\<close>, its index and the total \<open>N\<close> (when the
  question has the two fields the reply shows). The \<open>N\<close>-th call answers with the
  summary (completed, score, total \<open>N\<close>), and the stored quiz is completed from then on.
\<close>

theorem advance_completes_on_last_call:
  assumes "sid \<noteq> []" and "stored_quiz d sid = Some (quiz_state qs)" and "qs \<noteq> []"
  shows "(\<forall>k. k < length qs \<longrightarrow>
            stored_quiz (advance k d sid) sid = Some (quiz_json qs (int k) 0 False []) \<and>
            \<not> quiz_completed (advance k d sid) sid) \<and>
         (\<forall>k qt os. 0 < k \<and> k < length qs \<and>
              py_getitem (qs ! k) ''question'' = Inr qt \<and>
              py_getitem (qs ! k) ''options'' = Inr os \<longrightarrow>
            fst (next_question (advance (k - 1) d sid) (Some sid)) =
              Reply (JObj [(''completed'', JBool False),
                           (''question'', qt),
                           (''options'', os),
                           (''index'', JInt (int k)),
                           (''total'', JInt (int (length qs)))]) 200) \<and>
         fst (next_question (advance (length qs - 1) d sid) (Some sid)) =
           Reply (JObj [(''completed'', JBool True),
                        (''score'', JInt 0),
                        (''total'', JInt (int (length qs))),
                        (''summary'', JStr (''You scored 0 out of ''
                                            @ string_of_nat (length qs) @ ''!''))]) 200 \<and>
         stored_quiz (advance (length qs) d sid) sid =
           Some (quiz_json qs (int (length qs)) 0 True []) \<and>
         quiz_completed (advance (length qs) d sid) sid"
proof (intro conjI allI impI)
  fix k assume k: "k < length qs"
  show a: "stored_quiz (advance k d sid) sid = Some (quiz_json qs (int k) 0 False [])"
    by (rule advance_before_end [OF assms(1,2) k])
  show "\<not> quiz_completed (advance k d sid) sid"
    by (simp add: quiz_completed_quiz_json [OF a])
next
  fix k qt os
  assume h: "0 < k \<and> k < length qs \<and> py_getitem (qs ! k) ''question'' = Inr qt \<and>
             py_getitem (qs ! k) ''options'' = Inr os"
  then have "k - 1 < length qs" by linarith
  from advance_before_end [OF assms(1,2) this]
  have st: "stored_quiz (advance (k - 1) d sid) sid = Some (quiz_json qs (int (k - 1)) 0 False [])" .
  have e: "int (k - 1) + 1 = int k" using h by simp
  from next_question_continues(2) [OF assms(1) st, of qt os] h
  show "fst (next_question (advance (k - 1) d sid) (Some sid)) =
              Reply (JObj [(''completed'', JBool False),
                           (''question'', qt),
                           (''options'', os),
                           (''index'', JInt (int k)),
                           (''total'', JInt (int (length qs)))]) 200"
    by (simp add: e)
next
  from assms(3) have "length qs - 1 < length qs" by (cases qs) simp_all
  from advance_before_end [OF assms(1,2) this]
  have st: "stored_quiz (advance (length qs - 1) d sid) sid
              = Some (quiz_json qs (int (length qs - 1)) 0 False [])" .
  have e: "int (length qs - 1) + 1 = int (length qs)"
    using assms(3) by (cases qs) simp_all
  have suc: "length qs = Suc (length qs - 1)"
    using assms(3) by (cases qs) simp_all
  show "fst (next_question (advance (length qs - 1) d sid) (Some sid)) =
           Reply (JObj [(''completed'', JBool True),
                        (''score'', JInt 0),
                        (''total'', JInt (int (length qs))),
                        (''summary'', JStr (''You scored 0 out of ''
                                            @ string_of_nat (length qs) @ ''!''))]) 200"
    using next_question_completes(1) [OF assms(1) st] e
    by (simp add: string_of_int_def string_of_nat.simps [of 0] digit_char_def)
  have "advance (length qs) d sid = snd (next_question (advance (length qs - 1) d sid) (Some sid))"
    by (subst suc) simp
  with next_question_completes(2) [OF assms(1) st] e
  show l: "stored_quiz (advance (length qs) d sid) sid =
           Some (quiz_json qs (int (length qs)) 0 True [])"
    by simp
  show "quiz_completed (advance (length qs) d sid) sid"
    by (simp add: quiz_completed_quiz_json [OF l])
qed

lemma quiz_store_quiz: "stored_quiz (quiz_store ms) ''s1'' = Some (quiz_state [q0, q1])"
  by (simp add: stored_quiz_def get_session_metadata_def quiz_store_def store_with_def
                session_with_def)

theorem advance_completes_on_last_call_witness:
  "''s1'' \<noteq> [] \<and> stored_quiz (quiz_store []) ''s1'' = Some (quiz_state [q0, q1]) \<and>
   [q0, q1] \<noteq> [] \<and>
   \<not> quiz_completed (advance 0 (quiz_store []) ''s1'') ''s1'' \<and>
   \<not> quiz_completed (advance 1 (quiz_store []) ''s1'') ''s1'' \<and>
   fst (next_question (advance 0 (quiz_store []) ''s1'') (Some ''s1'')) =
     Reply (JObj [(''completed'', JBool False),
                  (''question'', JStr ''Q1''),
                  (''options'', JList [JStr ''e'', JStr ''f'', JStr ''g'', JStr ''h'']),
                  (''index'', JInt 1),
                  (''total'', JInt 2)]) 200 \<and>
   fst (next_question (advance 1 (quiz_store []) ''s1'') (Some ''s1'')) =
     Reply (JObj [(''completed'', JBool True),
                  (''score'', JInt 0),
                  (''total'', JInt 2),
                  (''summary'', JStr ''You scored 0 out of 2!'')]) 200 \<and>
   quiz_completed (advance 2 (quiz_store []) ''s1'') ''s1''"
proof -
  have s: "''s1'' \<noteq> []" by simp
  have ne: "[q0, q1] \<noteq> []" by simp
  note t = advance_completes_on_last_call [OF s quiz_store_quiz ne, of "[]"]
  note c1 = t [THEN conjunct1, rule_format]
  note c3 = t [THEN conjunct2, THEN conjunct2, THEN conjunct1]
  note c5 = t [THEN conjunct2, THEN conjunct2, THEN conjunct2, THEN conjunct2]
  have before: "\<not> quiz_completed (advance 0 (quiz_store []) ''s1'') ''s1''"
    "\<not> quiz_completed (advance 1 (quiz_store []) ''s1'') ''s1''"
    using c1 [of 0] c1 [of 1] by (simp_all del: advance.simps(2))
  have q1q: "py_getitem ([q0, q1] ! 1) ''question'' = Inr (JStr ''Q1'')"
    and q1o: "py_getitem ([q0, q1] ! 1) ''options''
                = Inr (JList [JStr ''e'', JStr ''f'', JStr ''g'', JStr ''h''])"
    by (simp_all add: q1_def)
  have reply: "fst (next_question (advance 0 (quiz_store []) ''s1'') (Some ''s1'')) =
     Reply (JObj [(''completed'', JBool False),
                  (''question'', JStr ''Q1''),
                  (''options'', JList [JStr ''e'', JStr ''f'', JStr ''g'', JStr ''h'']),
                  (''index'', JInt 1),
                  (''total'', JInt 2)]) 200"
    using t [THEN conjunct2, THEN conjunct1, rule_format, of 1 "JStr ''Q1''"
               "JList [JStr ''e'', JStr ''f'', JStr ''g'', JStr ''h'']"] q1q q1o
    by (simp del: advance.simps(2))
  have final: "fst (next_question (advance 1 (quiz_store []) ''s1'') (Some ''s1'')) =
     Reply (JObj [(''completed'', JBool True),
                  (''score'', JInt 0),
                  (''total'', JInt 2),
                  (''summary'', JStr ''You scored 0 out of 2!'')]) 200"
    using c3 by (simp add: string_of_nat.simps [of "Suc (Suc 0)"] digit_char_def del: advance.simps(2))
  have fin: "quiz_completed (advance 2 (quiz_store []) ''s1'') ''s1''"
    using c5 by (simp add: numeral_2_eq_2 del: advance.simps(2))
  from before reply final fin quiz_store_quiz show ?thesis
    by (simp del: advance.simps)
qed

lemma length_submissions: "length (submissions i calls) = length (filter is_submit calls)"
  by (induction i calls rule: submissions.induct) simp_all

text \<open>
  Claim C2. Over any sequence of calls that find the quiz active, the stored score grows
  by the number of submitted answers that equal, as integers, the
  \<^verbatim>\<open>correct_index\<close> of the question at \<^verbatim>\<open>current_index\<close> at the time of their call,
  and the history grows by one entry \<^verbatim>\<open>{question_index, selected, correct}\<close> for each
  submitted answer, in order. Nothing is left out for an index answered before: a second
  answer for the same question counts again.
\<close>

theorem score_counts_matching_submissions:
  assumes "sid \<noteq> []"
    and "stored_quiz d sid = Some (quiz_json qs i s False h)"
    and "accepted qs i calls"
  shows "stored_quiz (run d sid calls) sid =
           Some (quiz_json qs (final_index i calls)
                   (s + int (length (filter (\<lambda>sub. matches qs (fst sub) (snd sub))
                                            (submissions i calls))))
                   False
                   (h @ map (history_entry qs) (submissions i calls))) \<and>
         length (map (history_entry qs) (submissions i calls)) = length (filter is_submit calls)"
  using run_accepted [OF assms] by (simp add: length_submissions)

theorem score_counts_matching_submissions_witness:
  "''s1'' \<noteq> [] \<and>
   stored_quiz (quiz_store []) ''s1'' = Some (quiz_json [q0, q1] 0 0 False []) \<and>
   accepted [q0, q1] 0 [Submit (JInt 1), Submit (JStr ''1''), Submit (JInt 3), Next, Submit (JInt 1)] \<and>
   stored_quiz (run (quiz_store []) ''s1''
                  [Submit (JInt 1), Submit (JStr ''1''), Submit (JInt 3), Next, Submit (JInt 1)]) ''s1'' =
     Some (quiz_json [q0, q1] 1 2 False
             [JObj [(''question_index'', JInt 0), (''selected'', JInt 1), (''correct'', JBool True)],
              JObj [(''question_index'', JInt 0), (''selected'', JStr ''1''), (''correct'', JBool True)],
              JObj [(''question_index'', JInt 0), (''selected'', JInt 3), (''correct'', JBool False)],
              JObj [(''question_index'', JInt 1), (''selected'', JInt 1), (''correct'', JBool False)]])"
proof -
  let ?calls = "[Submit (JInt 1), Submit (JStr ''1''), Submit (JInt 3), Next, Submit (JInt 1)]"
  have s: "''s1'' \<noteq> []" by simp
  have q: "stored_quiz (quiz_store []) ''s1'' = Some (quiz_json [q0, q1] 0 0 False [])"
    by (simp add: quiz_store_quiz quiz_state_as_quiz_json)
  have one: "int_of_str ''1'' = Inr 1"
    by (simp add: int_of_str_def strip_def is_space_def decimal_def digit_def
                  int_max_str_digits_def)
  have acc: "accepted [q0, q1] 0 ?calls"
    by (simp add: gradable_def q0_def q1_def one)
  have m: "matches [q0, q1] 0 (JInt 1)" "matches [q0, q1] 0 (JStr ''1'')"
    "\<not> matches [q0, q1] 0 (JInt 3)" "\<not> matches [q0, q1] 1 (JInt 1)"
    by (simp_all add: matches_def list_index_def q0_def q1_def one)
  have subs: "submissions 0 ?calls = [(0, JInt 1), (0, JStr ''1''), (0, JInt 3), (1, JInt 1)]"
    and fi: "final_index 0 ?calls = 1"
    by simp_all
  have count: "filter (\<lambda>sub. matches [q0, q1] (fst sub) (snd sub))
                 [(0, JInt 1), (0, JStr ''1''), (0, JInt 3), (1, JInt 1)]
               = [(0, JInt 1), (0, JStr ''1'')]"
    using m by simp
  have entries: "map (history_entry [q0, q1]) [(0, JInt 1), (0, JStr ''1''), (0, JInt 3), (1, JInt 1)]
     = [JObj [(''question_index'', JInt 0), (''selected'', JInt 1), (''correct'', JBool True)],
        JObj [(''question_index'', JInt 0), (''selected'', JStr ''1''), (''correct'', JBool True)],
        JObj [(''question_index'', JInt 0), (''selected'', JInt 3), (''correct'', JBool False)],
        JObj [(''question_index'', JInt 1), (''selected'', JInt 1), (''correct'', JBool False)]]"
    using m by (simp add: history_entry_def)
  note t = score_counts_matching_submissions [OF s q acc, THEN conjunct1]
  have r: "stored_quiz (run (quiz_store []) ''s1'' ?calls) ''s1'' =
     Some (quiz_json [q0, q1] 1 2 False
             [JObj [(''question_index'', JInt 0), (''selected'', JInt 1), (''correct'', JBool True)],
              JObj [(''question_index'', JInt 0), (''selected'', JStr ''1''), (''correct'', JBool True)],
              JObj [(''question_index'', JInt 0), (''selected'', JInt 3), (''correct'', JBool False)],
              JObj [(''question_index'', JInt 1), (''selected'', JInt 1), (''correct'', JBool False)]])"
    using t unfolding subs fi count entries by (simp del: run.simps)
  show ?thesis
    by (rule conjI [OF s conjI [OF q conjI [OF acc r]]])
qed

section \<open>Calls that are turned away\<close>

text \<open>
  Claim C3. \<^verbatim>\<open>submit_quiz_answer\<close> answers 400 and returns the database as it was when
  the session has no quiz, when the quiz is completed, and when \<^verbatim>\<open>current_index\<close>
  is not below the number of questions; \<^verbatim>\<open>start_quiz\<close> answers 400 and returns the
  database as it was when the session's subject is missing or empty. The database being
  the same, score, history, index and metadata are the same.
\<close>

theorem rejected_calls_change_nothing:
  "(sid \<noteq> [] \<and> answer_index \<noteq> JNull \<and>
    get_session_metadata d sid = Inr (JObj meta) \<and>
    (case map_of meta ''quiz'' of None \<Rightarrow> True | Some q \<Rightarrow> \<not> truthy q) \<longrightarrow>
      submit_quiz_answer d (Some sid) answer_index =
        (Reply (error_body ''No active quiz found'') 400, d)) \<and>
   (sid \<noteq> [] \<and> answer_index \<noteq> JNull \<and>
    stored_quiz d sid = Some (JObj quiz) \<and>
    map_of quiz ''completed'' = Some completed \<and> truthy completed \<longrightarrow>
      submit_quiz_answer d (Some sid) answer_index =
        (Reply (error_body ''No active quiz found'') 400, d)) \<and>
   (sid \<noteq> [] \<and> answer_index \<noteq> JNull \<and>
    stored_quiz d sid = Some (JObj quiz) \<and>
    (case map_of quiz ''completed'' of None \<Rightarrow> True | Some c \<Rightarrow> \<not> truthy c) \<and>
    map_of quiz ''current_index'' = Some idx \<and> as_int idx = Some i \<and>
    map_of quiz ''questions'' = Some questions \<and> py_len questions = Inr n \<and>
    int n \<le> i \<longrightarrow>
      submit_quiz_answer d (Some sid) answer_index =
        (Reply (error_body ''Quiz already finished'') 400, d)) \<and>
   (sid \<noteq> [] \<and> session_exists d sid \<and>
    get_session_subject d sid = Inr subject \<and> \<not> truthy subject \<longrightarrow>
      start_quiz d (Some sid) llm =
        (Reply (error_body ''Session has no selected subject. Please start a new chat.'') 400, d))"
proof (intro conjI impI)
  assume "sid \<noteq> [] \<and> answer_index \<noteq> JNull \<and>
    get_session_metadata d sid = Inr (JObj meta) \<and>
    (case map_of meta ''quiz'' of None \<Rightarrow> True | Some q \<Rightarrow> \<not> truthy q)"
  then show "submit_quiz_answer d (Some sid) answer_index =
        (Reply (error_body ''No active quiz found'') 400, d)"
    by (auto simp: submit_quiz_answer_def no_session_id_def attempt_simps split: option.splits)
next
  assume h: "sid \<noteq> [] \<and> answer_index \<noteq> JNull \<and>
    stored_quiz d sid = Some (JObj quiz) \<and>
    map_of quiz ''completed'' = Some completed \<and> truthy completed"
  then obtain meta where "get_session_metadata d sid = Inr (JObj meta)"
    and "map_of meta ''quiz'' = Some (JObj quiz)"
    by (blast elim: stored_quiz_document)
  moreover from h have "quiz \<noteq> []" by auto
  ultimately show "submit_quiz_answer d (Some sid) answer_index =
        (Reply (error_body ''No active quiz found'') 400, d)"
    using h by (simp add: submit_quiz_answer_def no_session_id_def attempt_simps)
next
  assume h: "sid \<noteq> [] \<and> answer_index \<noteq> JNull \<and>
    stored_quiz d sid = Some (JObj quiz) \<and>
    (case map_of quiz ''completed'' of None \<Rightarrow> True | Some c \<Rightarrow> \<not> truthy c) \<and>
    map_of quiz ''current_index'' = Some idx \<and> as_int idx = Some i \<and>
    map_of quiz ''questions'' = Some questions \<and> py_len questions = Inr n \<and>
    int n \<le> i"
  then obtain meta where "get_session_metadata d sid = Inr (JObj meta)"
    and "map_of meta ''quiz'' = Some (JObj quiz)"
    by (blast elim: stored_quiz_document)
  moreover from h have "quiz \<noteq> []" by auto
  ultimately show "submit_quiz_answer d (Some sid) answer_index =
        (Reply (error_body ''Quiz already finished'') 400, d)"
    using h
    by (auto simp: submit_quiz_answer_def no_session_id_def attempt_simps py_ge_def
             split: option.splits)
next
  assume "sid \<noteq> [] \<and> session_exists d sid \<and>
    get_session_subject d sid = Inr subject \<and> \<not> truthy subject"
  then show "start_quiz d (Some sid) llm =
        (Reply (error_body ''Session has no selected subject. Please start a new chat.'') 400, d)"
    by (simp add: start_quiz_def no_session_id_def attempt_simps)
qed


theorem rejected_calls_change_nothing_witness:
  "get_session_metadata (store_with False (PyStr (Dumps biology)) []) ''s1''
     = Inr (JObj [(''subject'', JStr ''Biology'')]) \<and>
   submit_quiz_answer (store_with False (PyStr (Dumps biology)) []) (Some ''s1'') (JInt 1) =
     (Reply (error_body ''No active quiz found'') 400,
      store_with False (PyStr (Dumps biology)) []) \<and>
   stored_quiz (quiz_store_at 2 1 True) ''s1'' = Some (quiz_json [q0, q1] 2 1 True []) \<and>
   submit_quiz_answer (quiz_store_at 2 1 True) (Some ''s1'') (JInt 1) =
     (Reply (error_body ''No active quiz found'') 400, quiz_store_at 2 1 True) \<and>
   stored_quiz (quiz_store_at 2 1 False) ''s1'' = Some (quiz_json [q0, q1] 2 1 False []) \<and>
   submit_quiz_answer (quiz_store_at 2 1 False) (Some ''s1'') (JInt 1) =
     (Reply (error_body ''Quiz already finished'') 400, quiz_store_at 2 1 False) \<and>
   session_exists (store_with False SqlNull []) ''s1'' \<and>
   get_session_subject (store_with False SqlNull []) ''s1'' = Inr JNull \<and>
   start_quiz (store_with False SqlNull []) (Some ''s1'') (Parsed (JList [q0, q1])) =
     (Reply (error_body ''Session has no selected subject. Please start a new chat.'') 400,
      store_with False SqlNull [])"
proof -
  let ?d1 = "store_with False (PyStr (Dumps biology)) []"
  let ?d4 = "store_with False SqlNull []"
  have s: "''s1'' \<noteq> []" and a: "JInt 1 \<noteq> JNull" by simp_all
  have m1: "get_session_metadata ?d1 ''s1'' = Inr (JObj [(''subject'', JStr ''Biology'')])"
    by (simp add: get_session_metadata_def store_with_def session_with_def biology_def)
  have n1: "(case map_of [(''subject'', JStr ''Biology'')] ''quiz'' of
               None \<Rightarrow> True | Some q \<Rightarrow> \<not> truthy q)"
    by simp
  have q: "\<And>i s c. stored_quiz (quiz_store_at i s c) ''s1'' = Some (quiz_json [q0, q1] i s c [])"
    by (simp add: stored_quiz_def get_session_metadata_def quiz_store_at_def store_with_def
                  session_with_def)
  have e4: "session_exists ?d4 ''s1''"
    by (simp add: session_exists_def store_with_def)
  have s4: "get_session_subject ?d4 ''s1'' = Inr JNull"
    by (simp add: get_session_subject_def store_with_def session_with_def)
  have r1: "submit_quiz_answer ?d1 (Some ''s1'') (JInt 1) =
     (Reply (error_body ''No active quiz found'') 400, ?d1)"
    using rejected_calls_change_nothing [THEN conjunct1, rule_format,
            of "''s1''" "JInt 1" ?d1 "[(''subject'', JStr ''Biology'')]"] s a m1 n1
    by blast
  have r2: "submit_quiz_answer (quiz_store_at 2 1 True) (Some ''s1'') (JInt 1) =
     (Reply (error_body ''No active quiz found'') 400, quiz_store_at 2 1 True)"
    using rejected_calls_change_nothing [THEN conjunct2, THEN conjunct1, rule_format,
            of "''s1''" "JInt 1" "quiz_store_at 2 1 True" _ "JBool True"]
          q [of 2 1 True]
    by (simp add: quiz_json_def)
  have r3: "submit_quiz_answer (quiz_store_at 2 1 False) (Some ''s1'') (JInt 1) =
     (Reply (error_body ''Quiz already finished'') 400, quiz_store_at 2 1 False)"
    using rejected_calls_change_nothing [THEN conjunct2, THEN conjunct2, THEN conjunct1,
            rule_format,
            of "''s1''" "JInt 1" "quiz_store_at 2 1 False" _ "JInt 2" 2 "JList [q0, q1]" 2]
          q [of 2 1 False]
    by (simp add: quiz_json_def)
  have r4: "start_quiz ?d4 (Some ''s1'') (Parsed (JList [q0, q1])) =
     (Reply (error_body ''Session has no selected subject. Please start a new chat.'') 400, ?d4)"
    using rejected_calls_change_nothing [THEN conjunct2, THEN conjunct2, THEN conjunct2,
            rule_format, of "''s1''" ?d4 JNull] s e4 s4
    by simp
  show ?thesis
    by (rule conjI [OF m1 conjI [OF r1 conjI [OF q conjI [OF r2 conjI [OF q conjI [OF r3
          conjI [OF e4 conjI [OF s4 r4]]]]]]]])
qed

section \<open>A completed quiz stays completed\<close>

lemma update_frame:
  "t \<noteq> sid \<Longrightarrow> sessions (snd (update_session_metadata d t k v)) sid = sessions d sid"
  "is_postgres (snd (update_session_metadata d t k v)) = is_postgres d"
  by (simp_all add: update_session_metadata_def Let_def tick_def split: option.splits sum.splits)

lemma get_session_metadata_cong:
  "sessions d' sid = sessions d sid \<Longrightarrow> is_postgres d' = is_postgres d \<Longrightarrow>
   get_session_metadata d' sid = get_session_metadata d sid"
  by (simp add: get_session_metadata_def split: option.splits)

lemma update_other_session:
  "t \<noteq> sid \<Longrightarrow>
   get_session_metadata (snd (update_session_metadata d t k v)) sid = get_session_metadata d sid"
  by (intro get_session_metadata_cong update_frame)

lemma update_quiz_completed:
  assumes "quiz_completed d sid" and "t = sid \<Longrightarrow> is_completed v"
  shows "quiz_completed (snd (update_session_metadata d t ''quiz'' v)) sid"
proof (cases "t = sid")
  case True
  from assms(1) obtain q where "stored_quiz d sid = Some q"
    by (auto simp: quiz_completed_def split: option.splits)
  from save_quiz(2) [OF this, of v] assms(2) True show ?thesis
    by (simp add: quiz_completed_def)
next
  case False
  then show ?thesis
    using assms(1) by (simp add: quiz_completed_def stored_quiz_def update_other_session)
qed

lemma completed_attempt:
  "quiz_completed d sid \<Longrightarrow> (\<And>x. r = Inr x \<Longrightarrow> quiz_completed (snd (k x)) sid) \<Longrightarrow>
   quiz_completed (snd (attempt r d k)) sid"
  by (cases r) (simp_all add: attempt_simps)

lemma read_completed_quiz:
  "quiz_completed d sid \<Longrightarrow> get_session_metadata d sid = Inr doc \<Longrightarrow>
   py_get doc ''quiz'' JNull = Inr quiz \<Longrightarrow> is_completed quiz"
  by (auto simp: quiz_completed_def stored_quiz_def split: json.splits option.splits)

lemma setitem_keeps_completed:
  "is_completed q \<Longrightarrow> k \<noteq> ''completed'' \<Longrightarrow> py_setitem q k v = Inr q' \<Longrightarrow> is_completed q'"
  by (cases q) (auto simp: is_completed_def map_of_dict_set split: option.splits)

lemma setitem_completed:
  "py_setitem q ''completed'' (JBool True) = Inr q' \<Longrightarrow> is_completed q'"
  by (cases q) (auto simp: is_completed_def map_of_dict_set)

lemma advanced_quiz_completed:
  assumes "quiz_completed d sid" and "get_session_metadata d sid = Inr doc"
    and "py_get doc ''quiz'' JNull = Inr quiz"
    and "py_setitem quiz ''current_index'' idx = Inr quiz1"
  shows "is_completed quiz1"
proof -
  from assms(1-3) have "is_completed quiz" by (rule read_completed_quiz)
  then show ?thesis using _ assms(4) by (rule setitem_keeps_completed) simp
qed

lemma is_completed_get:
  "is_completed quiz \<Longrightarrow> \<exists>c. py_get quiz ''completed'' JNull = Inr c \<and> truthy c \<and> truthy quiz"
  by (cases quiz) (auto simp: is_completed_def split: option.splits)

lemma next_keeps_completed:
  assumes "quiz_completed d sid"
  shows "quiz_completed (snd (next_question d target)) sid"
proof (cases "no_session_id target")
  case True
  with assms show ?thesis by (simp add: next_question_def)
next
  case False
  show ?thesis
    unfolding next_question_def using False assms
    apply (simp add: Let_def)
    apply (intro completed_attempt impI conjI; (simp add: case_prod_beta)?)
    apply (intro completed_attempt impI conjI update_quiz_completed; (simp add: case_prod_beta)?)
    apply (auto intro!: completed_attempt update_quiz_completed
                intro: setitem_completed advanced_quiz_completed)
    done
qed


lemma submit_completed_rejected:
  assumes "sid \<noteq> []" and "a \<noteq> JNull" and "quiz_completed d sid"
  shows "submit_quiz_answer d (Some sid) a = (Reply (error_body ''No active quiz found'') 400, d)"
proof -
  from assms(3) obtain quiz where q: "stored_quiz d sid = Some quiz" and c: "is_completed quiz"
    by (auto simp: quiz_completed_def split: option.splits)
  from q obtain meta where m: "get_session_metadata d sid = Inr (JObj meta)"
    and mq: "map_of meta ''quiz'' = Some quiz"
    by (rule stored_quiz_document)
  from is_completed_get [OF c] obtain cf
    where "py_get quiz ''completed'' JNull = Inr cf" "truthy cf" "truthy quiz"
    by blast
  with assms(1,2) m mq show ?thesis
    by (simp add: submit_quiz_answer_def no_session_id_def attempt_simps)
qed

lemma submit_keeps_completed:
  assumes "quiz_completed d sid"
  shows "quiz_completed (snd (submit_quiz_answer d target a)) sid"
proof (cases "no_session_id target \<or> a = JNull")
  case True
  with assms show ?thesis by (simp add: submit_quiz_answer_def)
next
  case False
  show ?thesis
  proof (cases "the target = sid")
    case True
    with False have "target = Some sid" "sid \<noteq> []" "a \<noteq> JNull"
      by (auto simp: no_session_id_def split: option.splits)
    with submit_completed_rejected [OF this(2,3) assms] assms show ?thesis by simp
  next
    case other: False
    show ?thesis
      unfolding submit_quiz_answer_def using False other assms
      by (auto simp: Let_def case_prod_beta intro!: completed_attempt update_quiz_completed)
  qed
qed

text \<open>
  Claim C10. Once the stored quiz of a session has its \<^verbatim>\<open>completed\<close> flag set,
  no call of \<^verbatim>\<open>submit_quiz_answer\<close> or \<^verbatim>\<open>next_question\<close>, for this session or another,
  leaves it unset. \<^verbatim>\<open>submit_quiz_answer\<close> for the session is turned away with the
  database unchanged. \<^verbatim>\<open>next_question\<close> is still accepted: on a completed quiz whose
  index has reached the number of questions it stores the index plus one and answers with
  the completion summary again.
\<close>

theorem completed_stays_completed:
  "quiz_completed d sid \<longrightarrow>
     (sid \<noteq> [] \<and> answer_index \<noteq> JNull \<longrightarrow>
        submit_quiz_answer d (Some sid) answer_index =
          (Reply (error_body ''No active quiz found'') 400, d)) \<and>
     quiz_completed (snd (submit_quiz_answer d target answer_index)) sid \<and>
     quiz_completed (snd (next_question d target)) sid \<and>
     (\<forall>qs i s h. sid \<noteq> [] \<and> stored_quiz d sid = Some (quiz_json qs i s True h) \<and>
         int (length qs) \<le> i \<longrightarrow>
         fst (next_question d (Some sid)) =
           Reply (JObj [(''completed'', JBool True),
                        (''score'', JInt s),
                        (''total'', JInt (int (length qs))),
                        (''summary'', JStr (''You scored '' @ string_of_int s @ '' out of ''
                                            @ string_of_nat (length qs) @ ''!''))]) 200 \<and>
         stored_quiz (snd (next_question d (Some sid))) sid =
           Some (quiz_json qs (i + 1) s True h))"
proof (intro impI conjI allI)
  assume c: "quiz_completed d sid"
  show "submit_quiz_answer d (Some sid) answer_index =
          (Reply (error_body ''No active quiz found'') 400, d)"
    if "sid \<noteq> [] \<and> answer_index \<noteq> JNull"
    using that c by (intro submit_completed_rejected) simp_all
  show "quiz_completed (snd (submit_quiz_answer d target answer_index)) sid"
    using c by (rule submit_keeps_completed)
  show "quiz_completed (snd (next_question d target)) sid"
    using c by (rule next_keeps_completed)
  fix qs i s h
  assume h: "sid \<noteq> [] \<and> stored_quiz d sid = Some (quiz_json qs i s True h) \<and>
         int (length qs) \<le> i"
  then have sid: "sid \<noteq> []" and q: "stored_quiz d sid = Some (quiz_json qs i s True h)"
    and le: "int (length qs) \<le> i + 1"
    by simp_all
  show "fst (next_question d (Some sid)) =
           Reply (JObj [(''completed'', JBool True),
                        (''score'', JInt s),
                        (''total'', JInt (int (length qs))),
                        (''summary'', JStr (''You scored '' @ string_of_int s @ '' out of ''
                                            @ string_of_nat (length qs) @ ''!''))]) 200"
    by (rule next_question_completes(1) [OF sid q le])
  show "stored_quiz (snd (next_question d (Some sid))) sid =
           Some (quiz_json qs (i + 1) s True h)"
    by (rule next_question_completes(2) [OF sid q le])
qed

theorem completed_stays_completed_witness:
  "quiz_completed (quiz_store_at 2 1 True) ''s1'' \<and>
   submit_quiz_answer (quiz_store_at 2 1 True) (Some ''s1'') (JInt 0) =
     (Reply (error_body ''No active quiz found'') 400, quiz_store_at 2 1 True) \<and>
   quiz_completed (snd (next_question (quiz_store_at 2 1 True) (Some ''s1''))) ''s1'' \<and>
   fst (next_question (quiz_store_at 2 1 True) (Some ''s1'')) =
     Reply (JObj [(''completed'', JBool True),
                  (''score'', JInt 1),
                  (''total'', JInt 2),
                  (''summary'', JStr ''You scored 1 out of 2!'')]) 200 \<and>
   stored_quiz (snd (next_question (quiz_store_at 2 1 True) (Some ''s1''))) ''s1'' =
     Some (quiz_json [q0, q1] 3 1 True [])"
proof -
  let ?d = "quiz_store_at 2 1 True"
  have q: "stored_quiz ?d ''s1'' = Some (quiz_json [q0, q1] 2 1 True [])"
    by (simp add: stored_quiz_def get_session_metadata_def quiz_store_at_def store_with_def
                  session_with_def)
  have c: "quiz_completed ?d ''s1''"
    by (simp add: quiz_completed_quiz_json [OF q])
  note t = completed_stays_completed [rule_format, OF c, of "JInt 0" "Some ''s1''"]
  have r1: "submit_quiz_answer ?d (Some ''s1'') (JInt 0) =
     (Reply (error_body ''No active quiz found'') 400, ?d)"
    using t [THEN conjunct1] by simp
  have r2: "quiz_completed (snd (next_question ?d (Some ''s1''))) ''s1''"
    using t [THEN conjunct2, THEN conjunct2, THEN conjunct1] .
  note t4 = t [THEN conjunct2, THEN conjunct2, THEN conjunct2, rule_format,
               of "[q0, q1]" 2 1 "[]"]
  have r3: "fst (next_question ?d (Some ''s1'')) =
     Reply (JObj [(''completed'', JBool True),
                  (''score'', JInt 1),
                  (''total'', JInt 2),
                  (''summary'', JStr ''You scored 1 out of 2!'')]) 200"
    using t4 [THEN conjunct1] q
    by (simp add: string_of_int_def string_of_nat.simps [of "Suc (Suc 0)"]
                  string_of_nat.simps [of "Suc 0"] digit_char_def)
  have r4: "stored_quiz (snd (next_question ?d (Some ''s1''))) ''s1'' =
     Some (quiz_json [q0, q1] 3 1 True [])"
    using t4 [THEN conjunct2] q by simp
  show ?thesis
    by (rule conjI [OF c conjI [OF r1 conjI [OF r2 conjI [OF r3 r4]]]])
qed

section \<open>What the replies show\<close>

lemma next_reply_keys:
  assumes "fst (next_question d session_id) = Reply body status"
  shows "''correct_index'' \<notin> set (keys body) \<and>
         (status = 200 \<longrightarrow>
            keys body = [''completed'', ''question'', ''options'', ''index'', ''total''] \<or>
            keys body = [''completed'', ''score'', ''total'', ''summary''])"
  using assms unfolding next_question_def
  by (auto simp: Let_def case_prod_beta keys_def error_body_def
           elim!: reply_attempt split: if_splits)

lemma submit_reply_keys:
  assumes "fst (submit_quiz_answer d session_id a) = Reply body 200"
  shows "keys body = [''is_correct'', ''correct_index'', ''explanation'', ''score'']"
  using assms unfolding submit_quiz_answer_def
  by (auto simp: Let_def case_prod_beta keys_def error_body_def
           elim!: reply_attempt split: if_splits)

lemma start_reply_keys:
  assumes "fst (start_quiz d session_id llm) = Reply body status"
  shows "''correct_index'' \<notin> set (keys body) \<and>
         (status = 200 \<longrightarrow>
            (\<exists>q qs question options.
                llm = Parsed (JList (q # qs)) \<and>
                py_getitem q ''question'' = Inr question \<and>
                py_getitem q ''options'' = Inr options \<and>
                body = JObj [(''question'', question),
                             (''options'', options),
                             (''index'', JInt 0),
                             (''total'', JInt (int (min (length (q # qs)) num_questions)))]))"
  using assms unfolding start_quiz_def
  by (auto simp: Let_def keys_def error_body_def generic_failure_def num_questions_def
           elim!: reply_attempt
           split: if_splits llm_response.splits json.splits list.splits sum.splits
                  bool.splits prod.splits)


text \<open>
  Claim C8. No reply of \<^verbatim>\<open>start_quiz\<close> or \<^verbatim>\<open>next_question\<close> has a
  \<^verbatim>\<open>correct_index\<close> field. A 200 reply of \<^verbatim>\<open>start_quiz\<close> is exactly the first
  question's \<^verbatim>\<open>question\<close> and \<^verbatim>\<open>options\<close>, index 0 and the number of stored
  questions. A 200 reply of \<^verbatim>\<open>next_question\<close> is either the completion summary or the
  flag \<^verbatim>\<open>completed = False\<close> with the next question's \<^verbatim>\<open>question\<close> and
  \<^verbatim>\<open>options\<close>, its index and the total. The 200 reply of \<^verbatim>\<open>submit_quiz_answer\<close> is
  the one that carries \<^verbatim>\<open>correct_index\<close>.
\<close>

theorem replies_withhold_correct_index:
  "(\<forall>body status. fst (start_quiz d session_id llm) = Reply body status \<longrightarrow>
      ''correct_index'' \<notin> set (keys body) \<and>
      (status = 200 \<longrightarrow>
         (\<exists>q qs question options.
             llm = Parsed (JList (q # qs)) \<and>
             py_getitem q ''question'' = Inr question \<and>
             py_getitem q ''options'' = Inr options \<and>
             body = JObj [(''question'', question),
                          (''options'', options),
                          (''index'', JInt 0),
                          (''total'', JInt (int (min (length (q # qs)) num_questions)))]))) \<and>
   (\<forall>body status. fst (next_question d session_id) = Reply body status \<longrightarrow>
      ''correct_index'' \<notin> set (keys body) \<and>
      (status = 200 \<longrightarrow>
         keys body = [''completed'', ''question'', ''options'', ''index'', ''total''] \<or>
         keys body = [''completed'', ''score'', ''total'', ''summary''])) \<and>
   (\<forall>sid qs i s c h question options.
      session_id = Some sid \<and> sid \<noteq> [] \<and>
      stored_quiz d sid = Some (quiz_json qs i s c h) \<and>
      0 \<le> i + 1 \<and> i + 1 < int (length qs) \<and>
      py_getitem (qs ! nat (i + 1)) ''question'' = Inr question \<and>
      py_getitem (qs ! nat (i + 1)) ''options'' = Inr options \<longrightarrow>
      fst (next_question d session_id) =
        Reply (JObj [(''completed'', JBool False),
                     (''question'', question),
                     (''options'', options),
                     (''index'', JInt (i + 1)),
                     (''total'', JInt (int (length qs)))]) 200) \<and>
   (\<forall>body. fst (submit_quiz_answer d session_id answer_index) = Reply body 200 \<longrightarrow>
      keys body = [''is_correct'', ''correct_index'', ''explanation'', ''score''])"
proof (intro conjI allI impI)
  fix body status
  assume "fst (start_quiz d session_id llm) = Reply body status"
  note r = start_reply_keys [OF this]
  from r show "''correct_index'' \<notin> set (keys body)" by (rule conjunct1)
  show "\<exists>q qs question options.
             llm = Parsed (JList (q # qs)) \<and>
             py_getitem q ''question'' = Inr question \<and>
             py_getitem q ''options'' = Inr options \<and>
             body = JObj [(''question'', question),
                          (''options'', options),
                          (''index'', JInt 0),
                          (''total'', JInt (int (min (length (q # qs)) num_questions)))]"
    if "status = 200"
    using r that by (elim conjE) (erule mp)
next
  fix body status
  assume "fst (next_question d session_id) = Reply body status"
  note r = next_reply_keys [OF this]
  from r show "''correct_index'' \<notin> set (keys body)" by (rule conjunct1)
  show "keys body = [''completed'', ''question'', ''options'', ''index'', ''total''] \<or>
         keys body = [''completed'', ''score'', ''total'', ''summary'']"
    if "status = 200"
    using r that by (elim conjE) (erule mp)
next
  fix sid qs i s c h question options
  assume h: "session_id = Some sid \<and> sid \<noteq> [] \<and>
      stored_quiz d sid = Some (quiz_json qs i s c h) \<and>
      0 \<le> i + 1 \<and> i + 1 < int (length qs) \<and>
      py_getitem (qs ! nat (i + 1)) ''question'' = Inr question \<and>
      py_getitem (qs ! nat (i + 1)) ''options'' = Inr options"
  then have "fst (next_question d (Some sid)) =
        Reply (JObj [(''completed'', JBool False),
                     (''question'', question),
                     (''options'', options),
                     (''index'', JInt (i + 1)),
                     (''total'', JInt (int (length qs)))]) 200"
    by (intro next_question_continues(2)) (elim conjE, assumption)+
  with h show "fst (next_question d session_id) =
        Reply (JObj [(''completed'', JBool False),
                     (''question'', question),
                     (''options'', options),
                     (''index'', JInt (i + 1)),
                     (''total'', JInt (int (length qs)))]) 200"
    by simp
next
  fix body
  assume "fst (submit_quiz_answer d session_id answer_index) = Reply body 200"
  then show "keys body = [''is_correct'', ''correct_index'', ''explanation'', ''score'']"
    by (rule submit_reply_keys)
qed

lemma start_example:
  "fst (start_quiz (store_with False (PyStr (Dumps biology)) []) (Some ''s1'')
          (Parsed (JList [q0, q1]))) =
     Reply (JObj [(''question'', JStr ''Q0''),
                  (''options'', JList [JStr ''a'', JStr ''b'', JStr ''c'', JStr ''d'']),
                  (''index'', JInt 0),
                  (''total'', JInt 2)]) 200"
  by (simp add: start_quiz_def no_session_id_def session_exists_def store_with_def
                session_with_def biology_def get_session_subject_def attempt_simps
                update_session_metadata_def num_questions_def q0_def Let_def)

lemma submit_example:
  "fst (submit_quiz_answer (quiz_store []) (Some ''s1'') (JInt 1)) =
     Reply (JObj [(''is_correct'', JBool True),
                  (''correct_index'', JInt 1),
                  (''explanation'', JStr ''E0''),
                  (''score'', JInt 1)]) 200"
proof -
  have q: "stored_quiz (quiz_store []) ''s1'' = Some (quiz_json [q0, q1] 0 0 False [])"
    by (simp add: quiz_store_quiz quiz_state_as_quiz_json)
  have g: "gradable [q0, q1] 0 (JInt 1)" by (simp add: gradable_def q0_def)
  have m: "matches [q0, q1] 0 (JInt 1)" by (simp add: matches_def list_index_def q0_def)
  from submit_accepted(2) [OF _ q g] m show ?thesis
    by (simp add: q0_def)
qed

theorem replies_withhold_correct_index_witness:
  "fst (start_quiz (store_with False (PyStr (Dumps biology)) []) (Some ''s1'')
          (Parsed (JList [q0, q1]))) =
     Reply (JObj [(''question'', JStr ''Q0''),
                  (''options'', JList [JStr ''a'', JStr ''b'', JStr ''c'', JStr ''d'']),
                  (''index'', JInt 0),
                  (''total'', JInt 2)]) 200 \<and>
   ''correct_index'' \<notin> set (keys (JObj [(''question'', JStr ''Q0''),
                  (''options'', JList [JStr ''a'', JStr ''b'', JStr ''c'', JStr ''d'']),
                  (''index'', JInt 0),
                  (''total'', JInt 2)])) \<and>
   stored_quiz (quiz_store []) ''s1'' = Some (quiz_json [q0, q1] 0 0 False []) \<and>
   fst (next_question (quiz_store []) (Some ''s1'')) =
     Reply (JObj [(''completed'', JBool False),
                  (''question'', JStr ''Q1''),
                  (''options'', JList [JStr ''e'', JStr ''f'', JStr ''g'', JStr ''h'']),
                  (''index'', JInt 1),
                  (''total'', JInt 2)]) 200 \<and>
   fst (submit_quiz_answer (quiz_store []) (Some ''s1'') (JInt 1)) =
     Reply (JObj [(''is_correct'', JBool True),
                  (''correct_index'', JInt 1),
                  (''explanation'', JStr ''E0''),
                  (''score'', JInt 1)]) 200 \<and>
   keys (JObj [(''is_correct'', JBool True),
               (''correct_index'', JInt 1),
               (''explanation'', JStr ''E0''),
               (''score'', JInt 1)]) = [''is_correct'', ''correct_index'', ''explanation'', ''score'']"
proof -
  let ?d0 = "store_with False (PyStr (Dumps biology)) []"
  note t0 = replies_withhold_correct_index [of ?d0 "Some ''s1''" "Parsed (JList [q0, q1])" "JInt 1"]
  note t1 = replies_withhold_correct_index [of "quiz_store []" "Some ''s1''" "Parsed (JList [q0, q1])" "JInt 1"]
  from t0 [THEN conjunct1, rule_format, OF start_example]
  have a: "''correct_index'' \<notin> set (keys (JObj [(''question'', JStr ''Q0''),
                  (''options'', JList [JStr ''a'', JStr ''b'', JStr ''c'', JStr ''d'']),
                  (''index'', JInt 0),
                  (''total'', JInt 2)]))"
    by (rule conjunct1)
  have q: "stored_quiz (quiz_store []) ''s1'' = Some (quiz_json [q0, q1] 0 0 False [])"
    by (simp add: quiz_store_quiz quiz_state_as_quiz_json)
  have b: "fst (next_question (quiz_store []) (Some ''s1'')) =
     Reply (JObj [(''completed'', JBool False),
                  (''question'', JStr ''Q1''),
                  (''options'', JList [JStr ''e'', JStr ''f'', JStr ''g'', JStr ''h'']),
                  (''index'', JInt 1),
                  (''total'', JInt 2)]) 200"
    using t1 [THEN conjunct2, THEN conjunct2, THEN conjunct1, rule_format,
              of "''s1''" "[q0, q1]" 0 0 False "[]" "JStr ''Q1''"
                 "JList [JStr ''e'', JStr ''f'', JStr ''g'', JStr ''h'']"] q
    by (simp add: q1_def)
  from t1 [THEN conjunct2, THEN conjunct2, THEN conjunct2, rule_format, OF submit_example]
  have c: "keys (JObj [(''is_correct'', JBool True),
               (''correct_index'', JInt 1),
               (''explanation'', JStr ''E0''),
               (''score'', JInt 1)]) = [''is_correct'', ''correct_index'', ''explanation'', ''score'']" .
  show ?thesis
    by (rule conjI [OF start_example conjI [OF a conjI [OF q conjI [OF b conjI [OF submit_example c]]]]])
qed

section \<open>The message log\<close>














lemma add_message_rows:
  assumes "is_postgres d \<longrightarrow> session_exists d sid"
  shows "session_rows (snd (add_message d sid r c p)) sid =
           session_rows d sid @
             [\<lparr>msg_id = next_msg_id d, msg_session = sid, msg_role = r, msg_content = c,
               msg_provider = p, msg_created_at = now d\<rparr>]"
    and "is_postgres (snd (add_message d sid r c p)) = is_postgres d"
    and "session_exists (snd (add_message d sid r c p)) sid = session_exists d sid"
  using assms
  by (auto simp: add_message_def session_rows_def session_exists_def Let_def tick_def
           split: option.splits)





text \<open>
  The stamps are in order whenever the clock does not run backwards (on PostgreSQL:
  whenever it moves between two transactions) and is not behind the rows already stored.
\<close>

lemma add_message_clock:
  assumes "is_postgres d \<longrightarrow> session_exists d sid"
  shows "clock (snd (add_message d sid r c p)) = clock d"
    and "clock_reads (snd (add_message d sid r c p)) =
           (if is_postgres d then Suc (clock_reads d) else Suc (Suc (clock_reads d)))"
  using assms by (simp_all add: add_message_def Let_def tick_def)

lemma add_message_stamps_in_order:
  assumes pg: "is_postgres d \<longrightarrow> session_exists d sid"
    and st: "stamps_in_order d sid" and cl: "clock_runs_forward d sid"
  shows "stamps_in_order (snd (add_message d sid r c p)) sid"
    and "clock_runs_forward (snd (add_message d sid r c p)) sid"
proof -
  let ?d = "snd (add_message d sid r c p)"
  note rows = add_message_rows(1) [OF pg, of r c p]
  note be = add_message_rows(2) [OF pg, of r c p]
  note ck = add_message_clock [OF pg, of r c p]
  show "stamps_in_order ?d sid"
    using st cl unfolding stamps_in_order_def clock_runs_forward_def rows be
    by (auto simp: sorted_wrt_append list_all_iff)
  show "clock_runs_forward ?d sid"
  proof (cases "is_postgres d")
    case True
    with cl have sm: "strict_mono (clock d)"
      and old: "\<forall>m\<in>set (session_rows d sid). msg_created_at m < now d"
      by (simp_all add: clock_runs_forward_def list_all_iff)
    from sm have "now d < now ?d"
      by (simp add: now_def ck True strict_mono_less)
    with old sm show ?thesis
      unfolding clock_runs_forward_def rows be ck(1)
      by (auto simp: True list_all_iff intro: less_trans)
  next
    case False
    with cl have m: "mono (clock d)"
      and old: "\<forall>m\<in>set (session_rows d sid). msg_created_at m \<le> now d"
      by (simp_all add: clock_runs_forward_def list_all_iff)
    from m have "now d \<le> now ?d"
      by (simp add: now_def ck False monoD)
    with old m show ?thesis
      unfolding clock_runs_forward_def rows be ck(1)
      by (auto simp: False list_all_iff intro: order_trans)
  qed
qed

lemma monotone_clock_stamps_in_order:
  assumes "is_postgres d \<longrightarrow> session_exists d sid"
    and "stamps_in_order d sid" and "clock_runs_forward d sid"
  shows "stamps_in_order (add_messages d sid msgs) sid"
  using assms
proof (induction msgs arbitrary: d)
  case Nil
  then show ?case by simp
next
  case (Cons m msgs)
  obtain r c p where m: "m = (r, c, p)" by (cases m)
  let ?d = "snd (add_message d sid r c p)"
  from add_message_rows(2,3) [OF Cons.prems(1), of r c p] Cons.prems(1)
  have "is_postgres ?d \<longrightarrow> session_exists ?d sid" by simp
  from Cons.IH [OF this add_message_stamps_in_order [OF Cons.prems]]
  show ?case by (simp add: m)
qed

text \<open>
  The order is that of the stamps, not that of the calls: when the clock is set back
  between two calls, the later message carries the earlier stamp and comes back first.
\<close>

lemma rewound_rows:
  "session_rows (add_messages rewound_store ''s1''
       [(''user'', ''Hello'', None), (''assistant'', ''Hi there!'', Some ''x'')]) ''s1''
     = [early1, early2]"
  by (simp add: add_message_def session_rows_def rewound_store_def Let_def tick_def now_def
                msg1_def msg2_def early1_def early2_def)

lemma rewound_clock_reverses_messages:
  "get_session_messages
     (add_messages rewound_store ''s1''
        [(''user'', ''Hello'', None), (''assistant'', ''Hi there!'', Some ''x'')])
     ''s1'' 20 result \<longleftrightarrow>
   result =
     [\<lparr>role = ''assistant'', content = ''Hi there!'', provider = Some ''x'', created_at_of = 8\<rparr>,
      \<lparr>role = ''user'', content = ''Hello'', provider = None, created_at_of = 10\<rparr>]"
proof -
  let ?d = "add_messages rewound_store ''s1''
              [(''user'', ''Hello'', None), (''assistant'', ''Hi there!'', Some ''x'')]"
  have pg: "is_postgres ?d = False"
    by (simp add: add_message_def rewound_store_def Let_def tick_def)
  have "sort_key index_key [early1, early2] = [early2, early1]"
    by (simp add: index_key_def early1_def early2_def msg1_def msg2_def less_eq_prod_def)
  then have "select_messages ?d ''s1'' 20 fetched \<longleftrightarrow> fetched = [early1, early2]" for fetched
    unfolding select_messages_def rewound_rows pg by simp
  then show ?thesis
    unfolding get_session_messages_def
    by (simp add: dict_of_row_def early1_def early2_def msg1_def msg2_def)
qed

section \<open>The message log is outside the quiz\<close>

lemma update_keeps_messages:
  "messages (snd (update_session_metadata d sid k v)) = messages d"
  by (simp add: update_session_metadata_def Let_def tick_def split: option.splits sum.splits)

lemma messages_attempt:
  "messages d = ms \<Longrightarrow> (\<And>x. messages (snd (k x)) = ms) \<Longrightarrow>
   messages (snd (attempt r d k)) = ms"
  by (cases r) (simp_all add: attempt_simps)

lemma update_result_keeps_messages:
  "update_session_metadata d sid k v = (r, d') \<Longrightarrow> messages d' = messages d"
  using update_keeps_messages [of d sid k v] by simp

lemma start_quiz_keeps_messages: "messages (snd (start_quiz d session_id llm)) = messages d"
  unfolding start_quiz_def
  by (auto simp: Let_def intro!: messages_attempt dest: update_result_keeps_messages
           split: llm_response.splits json.splits list.splits sum.splits bool.splits prod.splits)

lemma submit_keeps_messages:
  "messages (snd (submit_quiz_answer d session_id a)) = messages d"
  unfolding submit_quiz_answer_def
  by (auto simp: Let_def case_prod_beta update_keeps_messages intro!: messages_attempt)

lemma next_keeps_messages:
  "messages (snd (next_question d session_id)) = messages d"
  unfolding next_question_def
  by (auto simp: Let_def case_prod_beta update_keeps_messages intro!: messages_attempt)

lemma metadata_ignores_messages:
  "get_session_metadata (d\<lparr>messages := ms\<rparr>) sid = get_session_metadata d sid"
  "get_session_subject (d\<lparr>messages := ms\<rparr>) sid = get_session_subject d sid"
  "session_exists (d\<lparr>messages := ms\<rparr>) sid = session_exists d sid"
  by (simp_all add: get_session_metadata_def get_session_subject_def session_exists_def
                split: option.splits)

lemma update_ignores_messages:
  "update_session_metadata (d\<lparr>messages := ms\<rparr>) sid k v =
     (fst (update_session_metadata d sid k v),
      (snd (update_session_metadata d sid k v))\<lparr>messages := ms\<rparr>)"
  by (simp add: update_session_metadata_def Let_def tick_def now_def
           split: option.splits sum.splits)

lemma with_messages_simps:
  "with_messages ms (x, d) = (x, d\<lparr>messages := ms\<rparr>)"
  "with_messages ms (attempt r d k) = attempt r (d\<lparr>messages := ms\<rparr>) (\<lambda>x. with_messages ms (k x))"
  "with_messages ms (if c then p else p') = (if c then with_messages ms p else with_messages ms p')"
  by (cases r; simp add: with_messages_def attempt_simps)+

lemma next_ignores_messages:
  "next_question (d\<lparr>messages := ms\<rparr>) session_id = with_messages ms (next_question d session_id)"
  unfolding next_question_def
  by (simp add: Let_def case_prod_beta with_messages_simps metadata_ignores_messages
                update_ignores_messages cong: if_cong)

lemma submit_ignores_messages:
  "submit_quiz_answer (d\<lparr>messages := ms\<rparr>) session_id a
     = with_messages ms (submit_quiz_answer d session_id a)"
  unfolding submit_quiz_answer_def
  by (simp add: Let_def case_prod_beta with_messages_simps metadata_ignores_messages
                update_ignores_messages cong: if_cong)

lemma start_ignores_messages:
  "start_quiz (d\<lparr>messages := ms\<rparr>) session_id llm = with_messages ms (start_quiz d session_id llm)"
  unfolding start_quiz_def
  by (auto simp: Let_def metadata_ignores_messages attempt_def
                update_ignores_messages with_messages_def
           split: llm_response.splits json.splits list.splits sum.splits bool.splits prod.splits)

lemma update_keeps_backend:
  "is_postgres (snd (update_session_metadata d sid k v)) = is_postgres d"
  by (simp add: update_session_metadata_def Let_def tick_def split: option.splits sum.splits)

lemma backend_attempt:
  "(\<And>x. is_postgres (snd (k x)) = is_postgres d) \<Longrightarrow>
   is_postgres (snd (attempt r d k)) = is_postgres d"
  by (cases r) (simp_all add: attempt_simps)

lemma start_quiz_keeps_backend:
  "is_postgres (snd (start_quiz d session_id llm)) = is_postgres d"
  unfolding start_quiz_def
  by (simp add: Let_def case_prod_beta update_keeps_backend backend_attempt
                if_distrib [of snd] if_distrib [of is_postgres]
           cong: if_cong
           split: llm_response.splits json.splits list.splits sum.splits bool.splits)

lemma submit_keeps_backend:
  "is_postgres (snd (submit_quiz_answer d session_id a)) = is_postgres d"
  unfolding submit_quiz_answer_def
  by (simp add: Let_def case_prod_beta update_keeps_backend backend_attempt
                if_distrib [of snd] if_distrib [of is_postgres]
           cong: if_cong)

lemma next_keeps_backend:
  "is_postgres (snd (next_question d session_id)) = is_postgres d"
  unfolding next_question_def
  by (simp add: Let_def case_prod_beta update_keeps_backend backend_attempt
                if_distrib [of snd] if_distrib [of is_postgres]
           cong: if_cong)

lemma same_messages:
  "messages d' = messages d \<Longrightarrow> is_postgres d' = is_postgres d \<Longrightarrow>
   get_session_messages d' sid limit result = get_session_messages d sid limit result"
  by (simp add: get_session_messages_def select_messages_def session_rows_def)

text \<open>
  Claim C9. \<^verbatim>\<open>start_quiz\<close>, \<^verbatim>\<open>submit_quiz_answer\<close> and \<^verbatim>\<open>next_question\<close> leave the
  message table as it is, so \<^verbatim>\<open>get_session_messages\<close> has the same answers before and
  after, for every session and limit; and they do not read it: with another message
  table they give the same reply and the same database, message table apart.
\<close>

theorem quiz_leaves_message_log:
  "messages (snd (start_quiz d session_id llm)) = messages d \<and>
   messages (snd (submit_quiz_answer d session_id answer_index)) = messages d \<and>
   messages (snd (next_question d session_id)) = messages d \<and>
   get_session_messages (snd (start_quiz d session_id llm)) sid limit result
     = get_session_messages d sid limit result \<and>
   get_session_messages (snd (submit_quiz_answer d session_id answer_index)) sid limit result
     = get_session_messages d sid limit result \<and>
   get_session_messages (snd (next_question d session_id)) sid limit result
     = get_session_messages d sid limit result \<and>
   start_quiz (d\<lparr>messages := ms\<rparr>) session_id llm
     = with_messages ms (start_quiz d session_id llm) \<and>
   submit_quiz_answer (d\<lparr>messages := ms\<rparr>) session_id answer_index
     = with_messages ms (submit_quiz_answer d session_id answer_index) \<and>
   next_question (d\<lparr>messages := ms\<rparr>) session_id
     = with_messages ms (next_question d session_id)"
  by (simp add: start_quiz_keeps_messages submit_keeps_messages next_keeps_messages
                same_messages [OF start_quiz_keeps_messages start_quiz_keeps_backend]
                same_messages [OF submit_keeps_messages submit_keeps_backend]
                same_messages [OF next_keeps_messages next_keeps_backend]
                start_ignores_messages submit_ignores_messages next_ignores_messages)

theorem quiz_leaves_message_log_witness:
  "messages (snd (start_quiz (quiz_store [msg1, msg2]) (Some ''s1'') (Parsed (JList [q1])))) = [msg1, msg2] \<and>
   messages (snd (submit_quiz_answer (quiz_store [msg1, msg2]) (Some ''s1'') (JInt 1))) = [msg1, msg2] \<and>
   messages (snd (next_question (quiz_store [msg1, msg2]) (Some ''s1''))) = [msg1, msg2]"
proof -
  note t = quiz_leaves_message_log [of "quiz_store [msg1, msg2]" "Some ''s1''"
             "Parsed (JList [q1])" "JInt 1" "''s1''" 20 "[]" "[]"]
  have m: "messages (quiz_store [msg1, msg2]) = [msg1, msg2]"
    by (simp add: quiz_store_def store_with_def)
  from t [THEN conjunct1] t [THEN conjunct2, THEN conjunct1]
       t [THEN conjunct2, THEN conjunct2, THEN conjunct1]
  show ?thesis by (simp only: m simp_thms)
qed

end
